theory Spec2Isabelle
  imports Main
begin

section \<open>JavaScript strings\<close>

text \<open>
  A JavaScript string is a sequence of UTF-16 code units; \<open>length\<close>, \<open>includes\<close>,
  \<open>trim\<close> and the regular expressions of \<open>aiService.ts\<close> (none carries the \<open>u\<close>
  flag) all work on code units.  A code unit is written as its number, so the Hangul
  syllable U+C6D4 is \<open>0xC6D4\<close>.
\<close>

type_synonym ustring = "nat list"

fun startsWith :: "ustring \<Rightarrow> ustring \<Rightarrow> bool" where
  "startsWith s [] = True"
| "startsWith [] (k # ks) = False"
| "startsWith (x # xs) (k # ks) = (x = k \<and> startsWith xs ks)"

text \<open>\<open>String.prototype.includes\<close>: the needle occurs at some position.\<close>

fun str_includes :: "ustring \<Rightarrow> ustring \<Rightarrow> bool" where
  "str_includes [] k = (k = [])"
| "str_includes (x # xs) k = (startsWith (x # xs) k \<or> str_includes xs k)"

text \<open>White space and line terminators of ECMA-262: what \<open>\s\<close> matches and \<open>trim\<close> removes.\<close>

definition isLineTerminator :: "nat \<Rightarrow> bool" where
  "isLineTerminator c = (c = 0x0A \<or> c = 0x0D \<or> c = 0x2028 \<or> c = 0x2029)"

definition isWhiteSpace :: "nat \<Rightarrow> bool" where
  "isWhiteSpace c =
     (c = 0x09 \<or> c = 0x0B \<or> c = 0x0C \<or> c = 0x20 \<or> c = 0xA0 \<or> c = 0x1680
      \<or> (0x2000 \<le> c \<and> c \<le> 0x200A) \<or> c = 0x202F \<or> c = 0x205F \<or> c = 0x3000
      \<or> c = 0xFEFF \<or> isLineTerminator c)"

definition isDigit :: "nat \<Rightarrow> bool" where
  "isDigit c = (0x30 \<le> c \<and> c \<le> 0x39)"

definition trim :: "ustring \<Rightarrow> ustring" where
  "trim s = rev (dropWhile isWhiteSpace (rev (dropWhile isWhiteSpace s)))"

text \<open>
  \<open>parseInt\<close> on a capture of \<open>\d+\<close>: the decimal value.  (JavaScript rounds a value
  above \<open>2^53\<close> to a double; such a count of days or weeks is far outside the range of
  a Date either way, see \<open>TimeClip\<close> below.)
\<close>

definition parseInt :: "ustring \<Rightarrow> int" where
  "parseInt ds = foldl (\<lambda>acc c. 10 * acc + (int c - 0x30)) 0 ds"

section \<open>Regular expressions\<close>

text \<open>
  The regular-expression literals of \<open>aiService.ts\<close> use single-character atoms,
  greedy and lazy repetition of an atom, alternation, optional groups and capture
  groups.  The matcher is the backtracking one of ECMA-262, written as a list of
  successes: the outcomes of matching at the head of the input, in the order in which
  backtracking tries them, so that the first element is the match JavaScript reports.
\<close>

datatype atom = Lit nat | Digit | Space | AnyChar | OneOf "nat list"

fun atom_ok :: "atom \<Rightarrow> nat \<Rightarrow> bool" where
  "atom_ok (Lit k) c = (c = k)"
| "atom_ok Digit c = isDigit c"
| "atom_ok Space c = isWhiteSpace c"
| "atom_ok AnyChar c = (\<not> isLineTerminator c)"
| "atom_ok (OneOf ks) c = (c \<in> set ks)"

datatype rx =
    Eps
  | Atom atom
  | Str ustring
  | Cat rx rx
  | Alt rx rx
  | Opt rx
  | Rep atom nat "nat option"
  | LazyPlus atom
  | Group nat rx

type_synonym captures = "(nat \<times> ustring) list"

definition run_length :: "atom \<Rightarrow> ustring \<Rightarrow> nat" where
  "run_length a s = length (takeWhile (atom_ok a) s)"

text \<open>\<open>a{lo,hi}\<close>, greedy: the longest run first, then shorter ones down to \<open>lo\<close>.\<close>

definition rep_greedy :: "atom \<Rightarrow> nat \<Rightarrow> nat option \<Rightarrow> ustring \<Rightarrow> ustring list" where
  "rep_greedy a lo hi s =
     (let n = (case hi of None \<Rightarrow> run_length a s | Some h \<Rightarrow> min h (run_length a s))
      in map (\<lambda>k. drop k s) (rev [lo ..< Suc n]))"

text \<open>\<open>a+?\<close>, lazy: one character first, then longer runs.\<close>

definition rep_lazy_plus :: "atom \<Rightarrow> ustring \<Rightarrow> ustring list" where
  "rep_lazy_plus a s = map (\<lambda>k. drop k s) [1 ..< Suc (run_length a s)]"

fun rx_match :: "rx \<Rightarrow> ustring \<times> captures \<Rightarrow> (ustring \<times> captures) list" where
  "rx_match Eps st = [st]"
| "rx_match (Atom a) (s, c) =
     (case s of [] \<Rightarrow> [] | x # xs \<Rightarrow> if atom_ok a x then [(xs, c)] else [])"
| "rx_match (Str k) (s, c) = (if startsWith s k then [(drop (length k) s, c)] else [])"
| "rx_match (Cat r1 r2) st = concat (map (rx_match r2) (rx_match r1 st))"
| "rx_match (Alt r1 r2) st = rx_match r1 st @ rx_match r2 st"
| "rx_match (Opt r) st = rx_match r st @ [st]"
| "rx_match (Rep a lo hi) (s, c) = map (\<lambda>s'. (s', c)) (rep_greedy a lo hi s)"
| "rx_match (LazyPlus a) (s, c) = map (\<lambda>s'. (s', c)) (rep_lazy_plus a s)"
| "rx_match (Group n r) (s, c) =
     map (\<lambda>(s', c'). (s', (n, take (length s - length s') s) # c')) (rx_match r (s, c))"

abbreviation Star :: "atom \<Rightarrow> rx" where "Star a \<equiv> Rep a 0 None"
abbreviation Plus :: "atom \<Rightarrow> rx" where "Plus a \<equiv> Rep a 1 None"

fun cat :: "rx list \<Rightarrow> rx" where
  "cat [] = Eps"
| "cat [r] = r"
| "cat (r # rs) = Cat r (cat rs)"

fun alts :: "ustring list \<Rightarrow> rx" where
  "alts [] = Str []"
| "alts [k] = Str k"
| "alts (k # ks) = Alt (Str k) (alts ks)"

text \<open>
  \<open>String.prototype.match\<close> without the \<open>g\<close> flag: the leftmost position at which
  the pattern matches; the result is the text before the match, the rest after it and
  the captures; \<open>None\<close> is JavaScript's \<open>null\<close>.
\<close>

record rx_result =
  before :: ustring
  rest :: ustring
  caps :: captures

fun rx_exec :: "rx \<Rightarrow> ustring \<Rightarrow> ustring \<Rightarrow> rx_result option" where
  "rx_exec r pre [] =
     (case rx_match r ([], []) of
        [] \<Rightarrow> None
      | (s', c) # _ \<Rightarrow> Some \<lparr>before = pre, rest = s', caps = c\<rparr>)"
| "rx_exec r pre (x # xs) =
     (case rx_match r (x # xs, []) of
        [] \<Rightarrow> rx_exec r (pre @ [x]) xs
      | (s', c) # _ \<Rightarrow> Some \<lparr>before = pre, rest = s', caps = c\<rparr>)"

definition match :: "ustring \<Rightarrow> rx \<Rightarrow> captures option" where
  "match s r = map_option caps (rx_exec r [] s)"

definition cap :: "captures \<Rightarrow> nat \<Rightarrow> ustring option" where
  "cap c n = map_of c n"

text \<open>
  \<open>s.replace(/r/g, '')\<close>: every match is deleted, scanning from the left and resuming
  after each match; after an empty match the scan advances by one code unit.
\<close>

function replace_all_empty :: "rx \<Rightarrow> ustring \<Rightarrow> ustring" where
  "replace_all_empty r s =
     (case rx_match r (s, []) of
        (s', c) # _ \<Rightarrow>
          if length s' < length s then replace_all_empty r s'
          else (case s of [] \<Rightarrow> [] | x # xs \<Rightarrow> x # replace_all_empty r xs)
      | [] \<Rightarrow> (case s of [] \<Rightarrow> [] | x # xs \<Rightarrow> x # replace_all_empty r xs))"
  by pat_completeness auto
termination
  by (relation "measure (\<lambda>(r, s). length s)") auto

section \<open>Time values and dates\<close>

text \<open>
  The \<open>Date\<close> arithmetic of ECMA-262 (section "Date Objects"), on which \<open>new Date\<close>,
  the getters and setters and the date-fns helpers rest.  A time value is a count of
  milliseconds since 1 January 1970 UTC.
\<close>

definition msPerDay :: int where "msPerDay = 86400000"
definition msPerHour :: int where "msPerHour = 3600000"
definition msPerMinute :: int where "msPerMinute = 60000"
definition msPerSecond :: int where "msPerSecond = 1000"

definition Day :: "int \<Rightarrow> int" where
  "Day t = t div msPerDay"

definition TimeWithinDay :: "int \<Rightarrow> int" where
  "TimeWithinDay t = t mod msPerDay"

definition DaysInYear :: "int \<Rightarrow> int" where
  "DaysInYear y =
     (if y mod 4 \<noteq> 0 then 365 else if y mod 100 \<noteq> 0 then 366
      else if y mod 400 \<noteq> 0 then 365 else 366)"

definition DayFromYear :: "int \<Rightarrow> int" where
  "DayFromYear y =
     365 * (y - 1970) + (y - 1969) div 4 - (y - 1901) div 100 + (y - 1601) div 400"

lemma div_step:
  fixes a m :: int
  assumes "0 < m"
  shows "(a + 1) div m = a div m + (if (a + 1) mod m = 0 then 1 else 0)"
proof -
  have e1: "a = m * (a div m) + a mod m" by simp
  have e2: "a + 1 = m * ((a + 1) div m) + (a + 1) mod m" by simp
  have b1: "0 \<le> a mod m" "a mod m < m" using assms by simp_all
  have b2: "0 \<le> (a + 1) mod m" "(a + 1) mod m < m" using assms by simp_all
  define q where "q = a div m"
  define q' where "q' = (a + 1) div m"
  have "m * q' + (a + 1) mod m = m * q + a mod m + 1"
    using e1 e2 unfolding q_def q'_def by linarith
  then have d: "m * (q' - q) = a mod m + 1 - (a + 1) mod m"
    by (simp add: algebra_simps)
  have "q' - q = 0 \<or> q' - q = 1"
  proof -
    have "m * (q' - q) > - m" using d b1 b2 by linarith
    then have "q' - q > -1" using assms
      by (metis mult.commute mult_minus1 mult_less_cancel_right_pos)
    moreover have "m * (q' - q) \<le> m" using d b1 b2 by linarith
    then have "q' - q \<le> 1" using assms
      by (metis mult.right_neutral mult_le_cancel_left_pos)
    ultimately show ?thesis by linarith
  qed
  then show ?thesis
  proof
    assume z: "q' - q = 0"
    then have "(a + 1) mod m = a mod m + 1" using d by simp
    then have "(a + 1) mod m \<noteq> 0" using b1 by linarith
    then show ?thesis using z unfolding q_def q'_def by simp
  next
    assume o: "q' - q = 1"
    then have "(a + 1) mod m = a mod m + 1 - m" using d by simp
    then have "(a + 1) mod m = 0" using b1 b2 by linarith
    then show ?thesis using o unfolding q_def q'_def by simp
  qed
qed

lemma mod_shift: "(y - m * k) mod m = y mod (m::int)"
  by (metis diff_conv_add_uminus mod_mult_self2 mult_minus_right)

lemma mod_400_100: "(y::int) mod 400 = 0 \<Longrightarrow> y mod 100 = 0"
  using mod_mod_cancel [of 100 400 y] by simp

lemma mod_100_4: "(y::int) mod 100 = 0 \<Longrightarrow> y mod 4 = 0"
  using mod_mod_cancel [of 4 100 y] by simp

lemma step4: "(y + 1 - 1969) div 4 = (y - 1969) div 4 + (if y mod 4 = 0 then 1 else (0::int))"
  using div_step [of 4 "y - 1969"] mod_shift [of y 4 492] by (simp add: algebra_simps)

lemma step100: "(y + 1 - 1901) div 100 = (y - 1901) div 100 + (if y mod 100 = 0 then 1 else (0::int))"
  using div_step [of 100 "y - 1901"] mod_shift [of y 100 19] by (simp add: algebra_simps)

lemma step400: "(y + 1 - 1601) div 400 = (y - 1601) div 400 + (if y mod 400 = 0 then 1 else (0::int))"
  using div_step [of 400 "y - 1601"] mod_shift [of y 400 4] by (simp add: algebra_simps)

lemma DayFromYear_Suc: "DayFromYear (y + 1) = DayFromYear y + DaysInYear y"
  unfolding DayFromYear_def DaysInYear_def
  using mod_400_100 [of y] mod_100_4 [of y]
  by (simp only: step4 step100 step400) auto

lemma DaysInYear_bounds: "365 \<le> DaysInYear y \<and> DaysInYear y \<le> 366"
  by (simp add: DaysInYear_def)

lemma DayFromYear_less: "DayFromYear y < DayFromYear (y + 1)"
  using DaysInYear_bounds [of y] by (simp add: DayFromYear_Suc)

text \<open>
  \<open>YearFromTime t\<close> is the largest year \<open>y\<close> with \<open>TimeFromYear y \<le> t\<close>.  It is found by
  counting up from a year that is not too large: a year has at most 366 days (for the
  days before 1970, at least 365).
\<close>

function year_search :: "int \<Rightarrow> int \<Rightarrow> int" where
  "year_search d y = (if DayFromYear (y + 1) \<le> d then year_search d (y + 1) else y)"
  by pat_completeness auto
termination
proof (relation "measure (\<lambda>(d, y). nat (d + 1 - DayFromYear (y + 1)))")
  show "wf (measure (\<lambda>(d, y). nat (d + 1 - DayFromYear (y + 1))))" by simp
next
  fix d y :: int
  assume "DayFromYear (y + 1) \<le> d"
  then show "((d, y + 1), (d, y)) \<in> measure (\<lambda>(d, y). nat (d + 1 - DayFromYear (y + 1)))"
    using DayFromYear_less [of "y + 1"] by simp
qed

declare year_search.simps [simp del]

definition year_guess :: "int \<Rightarrow> int" where
  "year_guess d = 1970 + (if 0 \<le> d then d div 366 else d div 365)"

definition YearFromTime :: "int \<Rightarrow> int" where
  "YearFromTime t = year_search (Day t) (year_guess (Day t))"

lemma year_guess_le: "DayFromYear (year_guess d) \<le> d"
proof -
  define k where "k = (if 0 \<le> d then d div 366 else d div 365)"
  have yg: "year_guess d = 1970 + k" by (simp add: year_guess_def k_def)
  have dfy: "DayFromYear (1970 + k) = 365 * k + (k + 1) div 4 - (k + 69) div 100 + (k + 369) div 400"
    by (simp add: DayFromYear_def add.commute)
  have a: "4 * ((k + 1) div 4) \<le> k + 1" by simp
  have b: "k + 69 - 99 \<le> 100 * ((k + 69) div 100)" by simp
  have c: "400 * ((k + 369) div 400) \<le> k + 369" by simp
  show ?thesis
  proof (cases "0 \<le> d")
    case True
    then have k0: "0 \<le> k" and kd: "366 * k \<le> d" by (simp_all add: k_def)
    have "(k + 1) div 4 - (k + 69) div 100 + (k + 369) div 400 \<le> k"
    proof (cases "k \<le> 2")
      case True
      then have "k = 0 \<or> k = 1 \<or> k = 2" using k0 by linarith
      then show ?thesis by auto
    next
      case False
      have "0 \<le> (k + 69) div 100" using k0 by simp
      then show ?thesis using a c False by linarith
    qed
    then show ?thesis using kd by (simp add: yg dfy)
  next
    case False
    then have k0: "k < 0" and kd: "365 * k \<le> d" by (simp_all add: k_def)
    have "(k + 1) div 4 - (k + 69) div 100 + (k + 369) div 400 \<le> 0"
    proof (cases "- 7 \<le> k")
      case True
      then have "k = -1 \<or> k = -2 \<or> k = -3 \<or> k = -4 \<or> k = -5 \<or> k = -6 \<or> k = -7" using k0 by linarith
      then show ?thesis by auto
    next
      case False
      then show ?thesis using a b c by linarith
    qed
    then show ?thesis using kd by (simp add: yg dfy)
  qed
qed

lemma year_search_spec:
  "DayFromYear y \<le> d \<Longrightarrow>
   DayFromYear (year_search d y) \<le> d \<and> d < DayFromYear (year_search d y + 1)"
proof (induction d y rule: year_search.induct)
  case (1 d y)
  show ?case
  proof (cases "DayFromYear (y + 1) \<le> d")
    case True
    then show ?thesis using 1 by (simp add: year_search.simps [of d y])
  next
    case False
    then show ?thesis using 1 by (simp add: year_search.simps [of d y])
  qed
qed

lemma DayFromYear_mono: "y \<le> y' \<Longrightarrow> DayFromYear y \<le> DayFromYear y'"
proof (induction y' rule: int_ge_induct)
  case base
  show ?case by simp
next
  case (step i)
  then show ?case using DayFromYear_less [of i] by simp
qed

lemma YearFromTime_spec:
  "DayFromYear (YearFromTime t) \<le> Day t \<and> Day t < DayFromYear (YearFromTime t + 1)"
  unfolding YearFromTime_def by (rule year_search_spec [OF year_guess_le])

lemma YearFromTime_unique:
  assumes "DayFromYear y \<le> Day t" and "Day t < DayFromYear (y + 1)"
  shows "YearFromTime t = y"
proof (rule ccontr)
  assume neq: "YearFromTime t \<noteq> y"
  let ?z = "YearFromTime t"
  have s: "DayFromYear ?z \<le> Day t" "Day t < DayFromYear (?z + 1)"
    using YearFromTime_spec [of t] by simp_all
  show False
  proof (cases "?z < y")
    case True
    then have "DayFromYear (?z + 1) \<le> DayFromYear y" by (intro DayFromYear_mono) simp
    then show False using s assms by linarith
  next
    case False
    then have "y + 1 \<le> ?z" using neq by simp
    then have "DayFromYear (y + 1) \<le> DayFromYear ?z" by (rule DayFromYear_mono)
    then show False using s assms by linarith
  qed
qed

definition InLeapYear :: "int \<Rightarrow> int" where
  "InLeapYear t = (if DaysInYear (YearFromTime t) = 366 then 1 else 0)"

definition DayWithinYear :: "int \<Rightarrow> int" where
  "DayWithinYear t = Day t - DayFromYear (YearFromTime t)"

text \<open>The day within the year on which month \<open>m\<close> (0 to 11) begins; 12 stands for the end of the year.\<close>

definition month_start :: "int \<Rightarrow> int \<Rightarrow> int" where
  "month_start m leap =
     (if m = 0 then 0 else if m = 1 then 31 else if m = 2 then 59 + leap
      else if m = 3 then 90 + leap else if m = 4 then 120 + leap
      else if m = 5 then 151 + leap else if m = 6 then 181 + leap
      else if m = 7 then 212 + leap else if m = 8 then 243 + leap
      else if m = 9 then 273 + leap else if m = 10 then 304 + leap
      else if m = 11 then 334 + leap else 365 + leap)"

definition MonthFromTime :: "int \<Rightarrow> int" where
  "MonthFromTime t =
     (let d = DayWithinYear t; l = InLeapYear t in
      if d < 31 then 0 else if d < 59 + l then 1 else if d < 90 + l then 2
      else if d < 120 + l then 3 else if d < 151 + l then 4 else if d < 181 + l then 5
      else if d < 212 + l then 6 else if d < 243 + l then 7 else if d < 273 + l then 8
      else if d < 304 + l then 9 else if d < 334 + l then 10 else 11)"

definition DateFromTime :: "int \<Rightarrow> int" where
  "DateFromTime t = DayWithinYear t - month_start (MonthFromTime t) (InLeapYear t) + 1"

definition WeekDay :: "int \<Rightarrow> int" where
  "WeekDay t = (Day t + 4) mod 7"

definition HourFromTime :: "int \<Rightarrow> int" where
  "HourFromTime t = (t div msPerHour) mod 24"

definition MinFromTime :: "int \<Rightarrow> int" where
  "MinFromTime t = (t div msPerMinute) mod 60"

definition SecFromTime :: "int \<Rightarrow> int" where
  "SecFromTime t = (t div msPerSecond) mod 60"

definition msFromTime :: "int \<Rightarrow> int" where
  "msFromTime t = t mod msPerSecond"

definition MakeTime :: "int \<Rightarrow> int \<Rightarrow> int \<Rightarrow> int \<Rightarrow> int" where
  "MakeTime hour minute sec ms = hour * msPerHour + minute * msPerMinute + sec * msPerSecond + ms"

text \<open>
  \<open>MakeDay\<close>: the day number of the first of the month (months beyond 0 to 11 carry into
  the year), plus the day of the month; a day outside the month carries into the
  neighbouring months.
\<close>

definition MakeDay :: "int \<Rightarrow> int \<Rightarrow> int \<Rightarrow> int" where
  "MakeDay year month dt =
     (let ym = year + month div 12; mn = month mod 12
      in DayFromYear ym + month_start mn (if DaysInYear ym = 366 then 1 else 0) + dt - 1)"

definition MakeDate :: "int \<Rightarrow> int \<Rightarrow> int" where
  "MakeDate day tm = day * msPerDay + tm"

text \<open>
  A \<open>Date\<close> object holds a time value or \<open>NaN\<close> (an invalid date); \<open>TimeClip\<close> turns a
  time beyond 8.64e15 ms into \<open>NaN\<close>.
\<close>

datatype jsdate = TimeValue int | InvalidDate

definition TimeClip :: "int \<Rightarrow> jsdate" where
  "TimeClip t = (if \<bar>t\<bar> > 8640000000000000 then InvalidDate else TimeValue t)"

text \<open>
  What the host supplies: \<open>String.prototype.toLowerCase\<close> (the Unicode case mapping,
  left open here: every result below holds for any such function) and the time zone,
  as the \<open>LocalTZA(t, isUTC)\<close> of ECMA-262: the offset of local time from UTC in
  milliseconds, at the UTC time \<open>t\<close> when \<open>isUTC\<close> is true and at the local time \<open>t\<close>
  when it is false.  The offset may change with \<open>t\<close> (daylight saving).
\<close>

record host =
  toLowerCase :: "ustring \<Rightarrow> ustring"
  LocalTZA :: "int \<Rightarrow> bool \<Rightarrow> int"

definition LocalTime :: "host \<Rightarrow> int \<Rightarrow> int" where
  "LocalTime h t = t + LocalTZA h t True"

definition UTC :: "host \<Rightarrow> int \<Rightarrow> int" where
  "UTC h t = t - LocalTZA h t False"

text \<open>\<open>new Date(year, month, day)\<close>: local midnight; a year from 0 to 99 means 1900 + year.\<close>

definition new_Date :: "host \<Rightarrow> int \<Rightarrow> int \<Rightarrow> int \<Rightarrow> jsdate" where
  "new_Date h year month dt =
     (let yr = (if 0 \<le> year \<and> year \<le> 99 then 1900 + year else year)
      in TimeClip (UTC h (MakeDate (MakeDay yr month dt) (MakeTime 0 0 0 0))))"

definition getFullYear :: "host \<Rightarrow> int \<Rightarrow> int" where
  "getFullYear h t = YearFromTime (LocalTime h t)"

definition getMonth :: "host \<Rightarrow> int \<Rightarrow> int" where
  "getMonth h t = MonthFromTime (LocalTime h t)"

definition getDate :: "host \<Rightarrow> int \<Rightarrow> int" where
  "getDate h t = DateFromTime (LocalTime h t)"

definition getDay :: "host \<Rightarrow> int \<Rightarrow> int" where
  "getDay h t = WeekDay (LocalTime h t)"

definition getHours :: "host \<Rightarrow> int \<Rightarrow> int" where
  "getHours h t = HourFromTime (LocalTime h t)"

definition getMinutes :: "host \<Rightarrow> int \<Rightarrow> int" where
  "getMinutes h t = MinFromTime (LocalTime h t)"

definition setFullYear :: "host \<Rightarrow> int \<Rightarrow> int \<Rightarrow> jsdate" where
  "setFullYear h t year =
     (let lt = LocalTime h t
      in TimeClip (UTC h (MakeDate (MakeDay year (MonthFromTime lt) (DateFromTime lt))
                                   (TimeWithinDay lt))))"

definition setDate :: "host \<Rightarrow> int \<Rightarrow> int \<Rightarrow> jsdate" where
  "setDate h t dt =
     (let lt = LocalTime h t
      in TimeClip (UTC h (MakeDate (MakeDay (YearFromTime lt) (MonthFromTime lt) dt)
                                   (TimeWithinDay lt))))"

definition Date_setHours :: "host \<Rightarrow> int \<Rightarrow> int \<Rightarrow> jsdate" where
  "Date_setHours h t hour =
     (let lt = LocalTime h t
      in TimeClip (UTC h (MakeDate (Day lt)
           (MakeTime hour (MinFromTime lt) (SecFromTime lt) (msFromTime lt)))))"

definition Date_setMinutes :: "host \<Rightarrow> int \<Rightarrow> int \<Rightarrow> jsdate" where
  "Date_setMinutes h t minute =
     (let lt = LocalTime h t
      in TimeClip (UTC h (MakeDate (Day lt)
           (MakeTime (HourFromTime lt) minute (SecFromTime lt) (msFromTime lt)))))"

subsection \<open>The date-fns helpers imported by \<open>aiService.ts\<close>\<close>

text \<open>
  \<open>addDays\<close> copies the date and calls \<open>setDate(getDate() + amount)\<close> (nothing for an
  amount of 0); \<open>addWeeks\<close> adds seven times as many days; \<open>nextDay(date, day)\<close> adds
  \<open>day - getDay(date)\<close> days, and seven more when that is not positive;
  \<open>setHours\<close> and \<open>setMinutes\<close> call the setter of the same name on a copy.
\<close>

fun addDays :: "host \<Rightarrow> jsdate \<Rightarrow> int \<Rightarrow> jsdate" where
  "addDays h InvalidDate amount = InvalidDate"
| "addDays h (TimeValue t) amount =
     (if amount = 0 then TimeValue t else setDate h t (getDate h t + amount))"

definition addWeeks :: "host \<Rightarrow> jsdate \<Rightarrow> int \<Rightarrow> jsdate" where
  "addWeeks h d amount = addDays h d (amount * 7)"

fun nextDay :: "host \<Rightarrow> jsdate \<Rightarrow> int \<Rightarrow> jsdate" where
  "nextDay h InvalidDate day = InvalidDate"
| "nextDay h (TimeValue t) day =
     (let delta = day - getDay h t;
          delta = (if delta \<le> 0 then delta + 7 else delta)
      in addDays h (TimeValue t) delta)"

definition nextMonday :: "host \<Rightarrow> jsdate \<Rightarrow> jsdate" where "nextMonday h d = nextDay h d 1"
definition nextTuesday :: "host \<Rightarrow> jsdate \<Rightarrow> jsdate" where "nextTuesday h d = nextDay h d 2"
definition nextWednesday :: "host \<Rightarrow> jsdate \<Rightarrow> jsdate" where "nextWednesday h d = nextDay h d 3"
definition nextThursday :: "host \<Rightarrow> jsdate \<Rightarrow> jsdate" where "nextThursday h d = nextDay h d 4"
definition nextFriday :: "host \<Rightarrow> jsdate \<Rightarrow> jsdate" where "nextFriday h d = nextDay h d 5"
definition nextSaturday :: "host \<Rightarrow> jsdate \<Rightarrow> jsdate" where "nextSaturday h d = nextDay h d 6"
definition nextSunday :: "host \<Rightarrow> jsdate \<Rightarrow> jsdate" where "nextSunday h d = nextDay h d 0"

fun setHours :: "host \<Rightarrow> jsdate \<Rightarrow> int \<Rightarrow> jsdate" where
  "setHours h InvalidDate hours = InvalidDate"
| "setHours h (TimeValue t) hours = Date_setHours h t hours"

fun setMinutes :: "host \<Rightarrow> jsdate \<Rightarrow> int \<Rightarrow> jsdate" where
  "setMinutes h InvalidDate minutes = InvalidDate"
| "setMinutes h (TimeValue t) minutes = Date_setMinutes h t minutes"

section \<open>\<open>aiService.ts\<close>: the command parser\<close>

datatype action = Add | Update | Delete | List | Chat

datatype entity = Event | Todo | Memo

record ParsedCommand =
  action :: action
  entity :: "entity option"
  title :: "ustring option"
  date :: "jsdate option"
  time :: "ustring option"
  content :: "ustring option"
  originalMessage :: ustring

subsection \<open>\<open>parseKoreanDate\<close>\<close>

text \<open>The Korean words of the parser, as code units (with their meaning).\<close>

definition w_today :: ustring where "w_today = [0xC624, 0xB298]"
definition w_tomorrow :: ustring where "w_tomorrow = [0xB0B4, 0xC77C]"
definition w_day_after_tomorrow :: ustring where "w_day_after_tomorrow = [0xBAA8, 0xB808]"
definition w_monday :: ustring where "w_monday = [0xC6D4, 0xC694, 0xC77C]"
definition w_tuesday :: ustring where "w_tuesday = [0xD654, 0xC694, 0xC77C]"
definition w_wednesday :: ustring where "w_wednesday = [0xC218, 0xC694, 0xC77C]"
definition w_thursday :: ustring where "w_thursday = [0xBAA9, 0xC694, 0xC77C]"
definition w_friday :: ustring where "w_friday = [0xAE08, 0xC694, 0xC77C]"
definition w_saturday :: ustring where "w_saturday = [0xD1A0, 0xC694, 0xC77C]"
definition w_sunday :: ustring where "w_sunday = [0xC77C, 0xC694, 0xC77C]"

text \<open>Single syllables: \<open>il\<close> (day), \<open>wol\<close> (month), \<open>nyeon\<close> (year), \<open>ju\<close> (week),
  \<open>dwi\<close> and \<open>hu\<close> (later, after), \<open>si\<close> (o'clock), \<open>bun\<close> (minute).\<close>

definition c_il :: nat where "c_il = 0xC77C"
definition c_wol :: nat where "c_wol = 0xC6D4"
definition c_nyeon :: nat where "c_nyeon = 0xB144"
definition c_ju :: nat where "c_ju = 0xC8FC"
definition c_dwi :: nat where "c_dwi = 0xB4A4"
definition c_hu :: nat where "c_hu = 0xD6C4"
definition c_si :: nat where "c_si = 0xC2DC"
definition c_bun :: nat where "c_bun = 0xBD84"
definition w_am :: ustring where "w_am = [0xC624, 0xC804]"
definition w_pm :: ustring where "w_pm = [0xC624, 0xD6C4]"

text \<open>\<open>dayMap\<close>: the weekday names in the order of the object literal, each with the
  weekday number its \<open>nextMonday\<close> ... \<open>nextSunday\<close> passes to \<open>nextDay\<close>.\<close>

definition dayMap :: "(ustring \<times> (host \<Rightarrow> jsdate \<Rightarrow> jsdate)) list" where
  "dayMap =
     [(w_monday, nextMonday), (w_tuesday, nextTuesday), (w_wednesday, nextWednesday),
      (w_thursday, nextThursday), (w_friday, nextFriday), (w_saturday, nextSaturday),
      (w_sunday, nextSunday)]"

text \<open>\<^verbatim>\<open>/(\d+)\s*(\uC77C|days?)\s*(\uB4A4|\uD6C4)/\<close>\<close>

definition rx_daysLater :: rx where
  "rx_daysLater =
     cat [Group 1 (Plus Digit), Star Space,
          Group 2 (Alt (Atom (Lit c_il)) (Cat (Str [0x64, 0x61, 0x79]) (Opt (Atom (Lit 0x73))))),
          Star Space, Group 3 (Alt (Atom (Lit c_dwi)) (Atom (Lit c_hu)))]"

text \<open>\<^verbatim>\<open>/(\d+)\s*(\uC8FC|\uC8FC\uC77C|weeks?)\s*(\uB4A4|\uD6C4)/\<close>\<close>

definition rx_weeksLater :: rx where
  "rx_weeksLater =
     cat [Group 1 (Plus Digit), Star Space,
          Group 2 (Alt (Atom (Lit c_ju)) (Alt (Str [c_ju, c_il])
                     (Cat (Str [0x77, 0x65, 0x65, 0x6B]) (Opt (Atom (Lit 0x73)))))),
          Star Space, Group 3 (Alt (Atom (Lit c_dwi)) (Atom (Lit c_hu)))]"

text \<open>\<^verbatim>\<open>/(\d{1,2})\s*\uC6D4\s*(\d{1,2})\s*\uC77C/\<close>\<close>

definition rx_monthDay :: rx where
  "rx_monthDay =
     cat [Group 1 (Rep Digit 1 (Some 2)), Star Space, Atom (Lit c_wol), Star Space,
          Group 2 (Rep Digit 1 (Some 2)), Star Space, Atom (Lit c_il)]"

text \<open>\<^verbatim>\<open>/(\d{4})\s*\uB144\s*(\d{1,2})\s*\uC6D4\s*(\d{1,2})\s*\uC77C/\<close>\<close>

definition rx_fullDate :: rx where
  "rx_fullDate =
     cat [Group 1 (Rep Digit 4 (Some 4)), Star Space, Atom (Lit c_nyeon), Star Space,
          Group 2 (Rep Digit 1 (Some 2)), Star Space, Atom (Lit c_wol), Star Space,
          Group 3 (Rep Digit 1 (Some 2)), Star Space, Atom (Lit c_il)]"

text \<open>\<open>parseInt\<close> of a capture group; a group that took no part is \<open>undefined\<close> and
  gives \<open>NaN\<close> (\<open>None\<close>).\<close>

definition cap_int :: "captures \<Rightarrow> nat \<Rightarrow> int option" where
  "cap_int c n = map_option parseInt (cap c n)"

definition parseKoreanDate :: "host \<Rightarrow> int \<Rightarrow> ustring \<Rightarrow> jsdate option" where
  "parseKoreanDate h now text =
     (let lowerText = toLowerCase h text in
      if str_includes lowerText w_today then Some (TimeValue now)
      else if str_includes lowerText w_tomorrow then Some (addDays h (TimeValue now) 1)
      else if str_includes lowerText w_day_after_tomorrow then Some (addDays h (TimeValue now) 2)
      else
        case find (\<lambda>(day, getDate'). str_includes lowerText day) dayMap of
          Some (day, getDate') \<Rightarrow> Some (getDate' h (TimeValue now))
        | None \<Rightarrow>
        (case match lowerText rx_daysLater of
          Some daysLaterMatch \<Rightarrow>
            Some (case cap_int daysLaterMatch 1 of
                    Some n \<Rightarrow> addDays h (TimeValue now) n
                  | None \<Rightarrow> InvalidDate)
        | None \<Rightarrow>
        (case match lowerText rx_weeksLater of
          Some weeksLaterMatch \<Rightarrow>
            Some (case cap_int weeksLaterMatch 1 of
                    Some n \<Rightarrow> addWeeks h (TimeValue now) n
                  | None \<Rightarrow> InvalidDate)
        | None \<Rightarrow>
        (case match lowerText rx_monthDay of
          Some monthDayMatch \<Rightarrow>
            Some (case (cap_int monthDayMatch 1, cap_int monthDayMatch 2) of
                    (Some m, Some day) \<Rightarrow>
                      (let month = m - 1 in
                       case new_Date h (getFullYear h now) month day of
                         TimeValue result \<Rightarrow>
                           if result < now
                           then setFullYear h result (getFullYear h result + 1)
                           else TimeValue result
                       | InvalidDate \<Rightarrow> InvalidDate)
                  | _ \<Rightarrow> InvalidDate)
        | None \<Rightarrow>
        (case match lowerText rx_fullDate of
          Some fullDateMatch \<Rightarrow>
            Some (case (cap_int fullDateMatch 1, cap_int fullDateMatch 2,
                        cap_int fullDateMatch 3) of
                    (Some y, Some m, Some d) \<Rightarrow> new_Date h y (m - 1) d
                  | _ \<Rightarrow> InvalidDate)
        | None \<Rightarrow> None)))))"

subsection \<open>\<open>parseTime\<close>\<close>

text \<open>\<^verbatim>\<open>/(\uC624\uC804|\uC624\uD6C4)\s*(\d{1,2})\s*\uC2DC\s*(\d{1,2})?\s*(\uBD84)?/\<close>\<close>

definition rx_ampm :: rx where
  "rx_ampm =
     cat [Group 1 (Alt (Str w_am) (Str w_pm)), Star Space, Group 2 (Rep Digit 1 (Some 2)),
          Star Space, Atom (Lit c_si), Star Space, Opt (Group 3 (Rep Digit 1 (Some 2))),
          Star Space, Opt (Group 4 (Atom (Lit c_bun)))]"

text \<open>\<^verbatim>\<open>/(\d{1,2})\s*\uC2DC\s*(\d{1,2})?\s*(\uBD84)?/\<close>\<close>

definition rx_time :: rx where
  "rx_time =
     cat [Group 1 (Rep Digit 1 (Some 2)), Star Space, Atom (Lit c_si), Star Space,
          Opt (Group 2 (Rep Digit 1 (Some 2))), Star Space, Opt (Group 3 (Atom (Lit c_bun)))]"

text \<open>\<^verbatim>\<open>/(\d{1,2}):(\d{2})/\<close>\<close>

definition rx_colon :: rx where
  "rx_colon = cat [Group 1 (Rep Digit 1 (Some 2)), Atom (Lit 0x3A), Group 2 (Rep Digit 2 (Some 2))]"

definition parseTime :: "ustring \<Rightarrow> (int \<times> int) option" where
  "parseTime text =
     (case match text rx_ampm of
        Some ampmMatch \<Rightarrow>
          (case cap_int ampmMatch 2 of
             None \<Rightarrow> None
           | Some hours0 \<Rightarrow>
               (let minutes = (case cap_int ampmMatch 3 of Some m \<Rightarrow> m | None \<Rightarrow> 0);
                    hours1 = (if cap ampmMatch 1 = Some w_pm \<and> hours0 < 12
                              then hours0 + 12 else hours0);
                    hours = (if cap ampmMatch 1 = Some w_am \<and> hours1 = 12 then 0 else hours1)
                in Some (hours, minutes)))
      | None \<Rightarrow>
     (case match text rx_time of
        Some timeMatch \<Rightarrow>
          (case cap_int timeMatch 1 of
             None \<Rightarrow> None
           | Some hours \<Rightarrow>
               Some (hours, (case cap_int timeMatch 2 of Some m \<Rightarrow> m | None \<Rightarrow> 0)))
      | None \<Rightarrow>
     (case match text rx_colon of
        Some colonMatch \<Rightarrow>
          (case (cap_int colonMatch 1, cap_int colonMatch 2) of
             (Some hours, Some minutes) \<Rightarrow> Some (hours, minutes)
           | _ \<Rightarrow> None)
      | None \<Rightarrow> None)))"

subsection \<open>\<open>parseCommand\<close>\<close>

text \<open>The keyword lists: \<open>addKeywords\<close>, \<open>deleteKeywords\<close>, \<open>listKeywords\<close>, and the
  entity words tested in the three branches of the entity detection.\<close>

definition addKeywords :: "ustring list" where
  "addKeywords = [[0xCD94, 0xAC00], [0xB4F1, 0xB85D], [0xB9CC, 0xB4E4], [0xC0DD, 0xC131], [0xC7A1, 0xC544], [0xB123, 0xC5B4]]"

definition deleteKeywords :: "ustring list" where
  "deleteKeywords = [[0xC0AD, 0xC81C], [0xC9C0, 0xC6CC], [0xCDE8, 0xC18C], [0xC81C, 0xAC70]]"

definition listKeywords :: "ustring list" where
  "listKeywords = [[0xBCF4, 0xC5EC], [0xC54C, 0xB824], [0xBB50], [0xC870, 0xD68C]]"

definition eventWords :: "ustring list" where
  "eventWords = [[0xC77C, 0xC815], [0xD68C, 0xC758], [0xBBF8, 0xD305], [0xC57D, 0xC18D]]"

definition todoWords :: "ustring list" where
  "todoWords = [[0xD560, 0xC77C], [0xD560, 0x20, 0xC77C], [0xC5C5, 0xBB34], [0xD0DC, 0xC2A4, 0xD06C]]"

definition memoWords :: "ustring list" where
  "memoWords = [[0xBA54, 0xBAA8], [0xB178, 0xD2B8]]"

text \<open>A \<open>for\<close> loop over a keyword list that stops at the first keyword the message includes.\<close>

definition includes_any :: "ustring \<Rightarrow> ustring list \<Rightarrow> bool" where
  "includes_any s ks = (find (str_includes s) ks \<noteq> None)"

text \<open>\<^verbatim>\<open>/['""](.+?)['""]|['"](.+?)['"]/\<close>\<close>

definition rx_quoted :: rx where
  "rx_quoted =
     Alt (cat [Atom (OneOf [0x27, 0x22, 0x22]), Group 1 (LazyPlus AnyChar),
               Atom (OneOf [0x27, 0x22, 0x22])])
         (cat [Atom (OneOf [0x27, 0x22]), Group 2 (LazyPlus AnyChar),
               Atom (OneOf [0x27, 0x22])])"

text \<open>The six patterns deleted from the message to obtain a title, in the order of the
  \<open>replace\<close> calls.\<close>

text \<open>\<^verbatim>\<open>/\uC624\uB298|\uB0B4\uC77C|\uBAA8\uB808|\uC6D4\uC694\uC77C|\uD654\uC694\uC77C|\uC218\uC694\uC77C|\uBAA9\uC694\uC77C|\uAE08\uC694\uC77C|\uD1A0\uC694\uC77C|\uC77C\uC694\uC77C/g\<close>\<close>

definition rx_strip_dateWords :: rx where
  "rx_strip_dateWords =
     alts [w_today, w_tomorrow, w_day_after_tomorrow, w_monday, w_tuesday, w_wednesday,
           w_thursday, w_friday, w_saturday, w_sunday]"

text \<open>\<^verbatim>\<open>/\d+\s*(\uC77C|\uC8FC|\uC6D4|\uB144)\s*(\uB4A4|\uD6C4)/g\<close>\<close>

definition rx_strip_later :: rx where
  "rx_strip_later =
     cat [Plus Digit, Star Space,
          Group 1 (Alt (Atom (Lit c_il)) (Alt (Atom (Lit c_ju))
                    (Alt (Atom (Lit c_wol)) (Atom (Lit c_nyeon))))),
          Star Space, Group 2 (Alt (Atom (Lit c_dwi)) (Atom (Lit c_hu)))]"

text \<open>\<^verbatim>\<open>/\d+\uC6D4\s*\d+\uC77C/g\<close>\<close>

definition rx_strip_monthDay :: rx where
  "rx_strip_monthDay =
     cat [Plus Digit, Atom (Lit c_wol), Star Space, Plus Digit, Atom (Lit c_il)]"

text \<open>\<^verbatim>\<open>/(\uC624\uC804|\uC624\uD6C4)?\s*\d+\uC2DC(\s*\d+\uBD84)?/g\<close>\<close>

definition rx_strip_time :: rx where
  "rx_strip_time =
     cat [Opt (Group 1 (Alt (Str w_am) (Str w_pm))), Star Space, Plus Digit, Atom (Lit c_si),
          Opt (Group 2 (cat [Star Space, Plus Digit, Atom (Lit c_bun)]))]"

text \<open>\<^verbatim>\<open>/\d+:\d+/g\<close>\<close>

definition rx_strip_colon :: rx where
  "rx_strip_colon = cat [Plus Digit, Atom (Lit 0x3A), Plus Digit]"

text \<open>\<^verbatim>\<open>/\uC77C\uC815|\uD68C\uC758|\uBBF8\uD305|\uC57D\uC18D|\uD560\uC77C|\uD560 \uC77C|\uBA54\uBAA8|\uCD94\uAC00|\uB4F1\uB85D|\uB9CC\uB4E4|\uC0DD\uC131|\uC7A1\uC544|\uB123\uC5B4|\uD574\uC918|\uD574 \uC918|\uC5D0/g\<close>\<close>

definition stripWords :: "ustring list" where
  "stripWords =
     [[0xC77C, 0xC815], [0xD68C, 0xC758], [0xBBF8, 0xD305], [0xC57D, 0xC18D], [0xD560, 0xC77C], [0xD560, 0x20, 0xC77C], [0xBA54, 0xBAA8], [0xCD94, 0xAC00], [0xB4F1, 0xB85D],
      [0xB9CC, 0xB4E4], [0xC0DD, 0xC131], [0xC7A1, 0xC544], [0xB123, 0xC5B4], [0xD574, 0xC918], [0xD574, 0x20, 0xC918], [0xC5D0]]"

definition rx_strip_keywords :: rx where
  "rx_strip_keywords = alts stripWords"

text \<open>The title left when no quoted span is found: the six deletions, then \<open>trim\<close>.\<close>

definition stripTitle :: "ustring \<Rightarrow> ustring" where
  "stripTitle message =
     (let t = message;
          t = replace_all_empty rx_strip_dateWords t;
          t = replace_all_empty rx_strip_later t;
          t = replace_all_empty rx_strip_monthDay t;
          t = replace_all_empty rx_strip_time t;
          t = replace_all_empty rx_strip_colon t;
          t = replace_all_empty rx_strip_keywords t
      in trim t)"

text \<open>\<open>String(n)\<close> for an integer \<open>n\<close>, and \<open>padStart(2, '0')\<close>.\<close>

fun digits :: "nat \<Rightarrow> ustring" where
  "digits n = (if n < 10 then [0x30 + n] else digits (n div 10) @ [0x30 + n mod 10])"

declare digits.simps [simp del]

definition String_of_int :: "int \<Rightarrow> ustring" where
  "String_of_int n = (if n < 0 then 0x2D # digits (nat (- n)) else digits (nat n))"

definition padStart :: "nat \<Rightarrow> nat \<Rightarrow> ustring \<Rightarrow> ustring" where
  "padStart n c s = replicate (n - length s) c @ s"

definition parseCommand :: "host \<Rightarrow> int \<Rightarrow> ustring \<Rightarrow> ParsedCommand" where
  "parseCommand h now message =
     (let lowerMessage = toLowerCase h message;
          result = \<lparr>action = Chat, entity = None, title = None, date = None, time = None,
                    content = None, originalMessage = message\<rparr>;
          detectedAction =
            (if includes_any lowerMessage addKeywords then Some Add
             else if includes_any lowerMessage deleteKeywords then Some Delete
             else if includes_any lowerMessage listKeywords then Some List
             else None)
      in case detectedAction of
           None \<Rightarrow> result
         | Some a \<Rightarrow>
            (let result = result\<lparr>action := a\<rparr>;
                 result =
                   (if includes_any lowerMessage eventWords then result\<lparr>entity := Some Event\<rparr>
                    else if includes_any lowerMessage todoWords then result\<lparr>entity := Some Todo\<rparr>
                    else if includes_any lowerMessage memoWords then result\<lparr>entity := Some Memo\<rparr>
                    else result)
             in if entity result = None then result\<lparr>action := Chat\<rparr>
                else
                 (let result =
                        (case parseKoreanDate h now message of
                           Some parsedDate \<Rightarrow> result\<lparr>date := Some parsedDate\<rparr>
                         | None \<Rightarrow> result);
                      result =
                        (case (parseTime message, date result) of
                           (Some (hours, minutes), Some d) \<Rightarrow>
                             result\<lparr>date := Some (setMinutes h (setHours h d hours) minutes),
                                    time := Some (String_of_int hours @ [0x3A]
                                                  @ padStart 2 0x30 (String_of_int minutes))\<rparr>
                         | _ \<Rightarrow> result)
                  in case match message rx_quoted of
                       Some quotedMatch \<Rightarrow>
                         result\<lparr>title := (case cap quotedMatch 1 of
                                             Some t \<Rightarrow> Some t
                                           | None \<Rightarrow> cap quotedMatch 2)\<rparr>
                     | None \<Rightarrow>
                         (let t = stripTitle message
                          in if length t > 2 then result\<lparr>title := Some t\<rparr> else result))))"

section \<open>\<open>aiService.ts\<close>: the dispatcher\<close>

text \<open>A thrown or returned error object; \<open>message\<close> may be absent.\<close>

datatype js_error = JsError (err_message: "ustring option")

subsection \<open>date-fns \<open>format\<close>\<close>

text \<open>
  The tokens of the four format strings used: \<open>yyyy\<close>, \<open>M\<close>, \<open>MM\<close>, \<open>d\<close>, \<open>dd\<close>, \<open>HH\<close>,
  \<open>mm\<close> and literal text.  \<open>format\<close> throws a \<open>RangeError\<close> for an invalid date.
\<close>

datatype fmt = F_yyyy | F_M | F_MM | F_d | F_dd | F_HH | F_mm | F_text ustring

definition addLeadingZeros :: "int \<Rightarrow> nat \<Rightarrow> ustring" where
  "addLeadingZeros n targetLength =
     (if n < 0 then [0x2D] else []) @ padStart targetLength 0x30 (digits (nat \<bar>n\<bar>))"

fun format_token :: "host \<Rightarrow> int \<Rightarrow> fmt \<Rightarrow> ustring" where
  "format_token h t F_yyyy =
     (let signedYear = getFullYear h t;
          year = (if signedYear > 0 then signedYear else 1 - signedYear)
      in addLeadingZeros year 4)"
| "format_token h t F_M = String_of_int (getMonth h t + 1)"
| "format_token h t F_MM = addLeadingZeros (getMonth h t + 1) 2"
| "format_token h t F_d = addLeadingZeros (getDate h t) 1"
| "format_token h t F_dd = addLeadingZeros (getDate h t) 2"
| "format_token h t F_HH = addLeadingZeros (getHours h t) 2"
| "format_token h t F_mm = addLeadingZeros (getMinutes h t) 2"
| "format_token h t (F_text s) = s"

definition RangeError_invalid_time :: js_error where
  "RangeError_invalid_time = JsError (Some [0x49, 0x6E, 0x76, 0x61, 0x6C, 0x69, 0x64, 0x20, 0x74, 0x69, 0x6D, 0x65, 0x20, 0x76, 0x61, 0x6C, 0x75, 0x65])"

fun format :: "host \<Rightarrow> jsdate \<Rightarrow> fmt list \<Rightarrow> js_error + ustring" where
  "format h InvalidDate fs = Inl RangeError_invalid_time"
| "format h (TimeValue t) fs = Inr (concat (map (format_token h t) fs))"

text \<open>\<^verbatim>\<open>'M\uC6D4 d\uC77C HH:mm'\<close>, \<^verbatim>\<open>'M\uC6D4 d\uC77C'\<close>, \<^verbatim>\<open>"yyyy-MM-dd'T'HH:mm"\<close>, \<^verbatim>\<open>'M/d HH:mm'\<close>\<close>

definition fmt_event_added :: "fmt list" where
  "fmt_event_added = [F_M, F_text [0xC6D4, 0x20], F_d, F_text [0xC77C, 0x20], F_HH, F_text [0x3A], F_mm]"

definition fmt_todo_added :: "fmt list" where
  "fmt_todo_added = [F_M, F_text [0xC6D4, 0x20], F_d, F_text [0xC77C]]"

definition fmt_dueDate :: "fmt list" where
  "fmt_dueDate = [F_yyyy, F_text [0x2D], F_MM, F_text [0x2D], F_dd, F_text [0x54], F_HH, F_text [0x3A], F_mm]"

definition fmt_event_line :: "fmt list" where
  "fmt_event_line = [F_M, F_text [0x2F], F_d, F_text [0x20], F_HH, F_text [0x3A], F_mm]"

subsection \<open>The stores behind the dispatcher\<close>

text \<open>What \<open>executeCommand\<close> passes to \<open>calendarService.createEvent\<close>,
  \<open>todoService.createTodo\<close> and \<open>memoService.createMemo\<close>.\<close>

record NewEvent =
  ev_title :: ustring
  ev_startDate :: jsdate
  ev_endDate :: jsdate
  ev_type :: ustring
  ev_color :: ustring

record NewTodo =
  nt_title :: ustring
  nt_dueDate :: ustring
  nt_status :: ustring
  nt_priority :: ustring
  nt_project :: ustring
  nt_assignee :: ustring
  nt_description :: ustring

record NewMemo =
  nm_title :: ustring
  nm_content :: ustring
  nm_tags :: "ustring list"
  nm_isPinned :: bool

text \<open>A row of the \<open>todos\<close> table (every column but \<open>id\<close> and \<open>title\<close> may be null) and
  the \<open>TodoItem\<close> that \<open>getTodos\<close> makes of it.\<close>

record todo_row =
  r_id :: int
  r_title :: ustring
  r_description :: "ustring option"
  r_project :: "ustring option"
  r_due_date :: "ustring option"
  r_status :: "ustring option"
  r_priority :: "ustring option"
  r_assignee :: "ustring option"
  r_is_deleted :: "bool option"

record TodoItem =
  t_id :: int
  t_title :: ustring
  t_description :: ustring
  t_project :: ustring
  t_dueDate :: ustring
  t_status :: ustring
  t_priority :: ustring
  t_assignee :: ustring
  t_isDeleted :: bool

text \<open>A row of the \<open>events\<close> table, its two dates already read by \<open>new Date\<close>, which is
  the \<open>CalendarEvent\<close> that \<open>getEvents\<close> makes of it.\<close>

record CalendarEvent =
  e_id :: int
  e_title :: ustring
  e_startDate :: jsdate
  e_endDate :: jsdate
  e_type :: ustring
  e_color :: ustring

text \<open>
  The collaborators.  A call either throws (\<open>Inl\<close>) or returns (\<open>Inr\<close>).  The three
  create calls return \<open>{data, error}\<close>, of which the dispatcher reads \<open>error\<close> only; the
  two queries are the Supabase \<open>select\<close> behind \<open>getEvents\<close> and \<open>getTodos\<close>, returning
  \<open>{data, error}\<close> with \<open>data\<close> null on failure; \<open>converse\<close> is the Gemini chat
  (\<open>startChat\<close>, \<open>sendMessage\<close>, \<open>response.text()\<close>).
\<close>

record backend =
  createEvent :: "NewEvent \<Rightarrow> js_error + js_error option"
  createTodo :: "NewTodo \<Rightarrow> js_error + js_error option"
  createMemo :: "NewMemo \<Rightarrow> js_error + js_error option"
  select_events :: "js_error + (CalendarEvent list option \<times> js_error option)"
  select_todos :: "js_error + (todo_row list option \<times> js_error option)"
  converse :: "ustring \<Rightarrow> js_error + ustring"

text \<open>The calls made, in order.\<close>

datatype call =
    CreateEvent NewEvent
  | CreateTodo NewTodo
  | CreateMemo NewMemo
  | GetEvents
  | GetTodos
  | Converse ustring

text \<open>\<open>x || d\<close> on a string that may be null: the default replaces null and the empty string.\<close>

definition or_default :: "ustring option \<Rightarrow> ustring \<Rightarrow> ustring" where
  "or_default x d = (case x of None \<Rightarrow> d | Some s \<Rightarrow> if s = [] then d else s)"

text \<open>\<open>todoService.getTodos\<close>\<close>

definition todo_of_row :: "todo_row \<Rightarrow> TodoItem" where
  "todo_of_row todo =
     \<lparr>t_id = r_id todo,
      t_title = r_title todo,
      t_description = or_default (r_description todo) [],
      t_project = or_default (r_project todo) [0xAE30, 0xD0C0],
      t_dueDate = or_default (r_due_date todo) [],
      t_status = or_default (r_status todo) [0xB300, 0xAE30],
      t_priority = or_default (r_priority todo) [0xC911],
      t_assignee = or_default (r_assignee todo) [0xB098],
      t_isDeleted = (case r_is_deleted todo of Some b \<Rightarrow> b | None \<Rightarrow> False)\<rparr>"

definition getTodos :: "backend \<Rightarrow> js_error + (TodoItem list \<times> js_error option)" where
  "getTodos b =
     (case select_todos b of
        Inl e \<Rightarrow> Inl e
      | Inr (data, error) \<Rightarrow>
          Inr ((case data of Some rows \<Rightarrow> map todo_of_row rows | None \<Rightarrow> []), error))"

text \<open>\<open>calendarService.getEvents\<close>\<close>

definition getEvents :: "backend \<Rightarrow> js_error + (CalendarEvent list \<times> js_error option)" where
  "getEvents b =
     (case select_events b of
        Inl e \<Rightarrow> Inl e
      | Inr (data, error) \<Rightarrow>
          Inr ((case data of Some rows \<Rightarrow> rows | None \<Rightarrow> []), error))"

subsection \<open>\<open>executeCommand\<close>\<close>

text \<open>The texts of the replies (\<open>\n\<close> is the code unit 0x0A).\<close>

definition msg_need_event_title :: ustring where
  "msg_need_event_title = [0xC77C, 0xC815, 0x20, 0xC81C, 0xBAA9, 0xC744, 0x20, 0xC54C, 0xB824, 0xC8FC, 0xC138, 0xC694, 0x2E, 0x20, 0xC608, 0x3A, 0x20, 0x22, 0xB0B4, 0xC77C, 0x20, 0xC624, 0xD6C4, 0x20, 0x32, 0xC2DC, 0xC5D0, 0x20, 0xD300, 0x20, 0xBBF8, 0xD305, 0x20, 0xC77C, 0xC815, 0x20, 0xCD94, 0xAC00, 0xD574, 0xC918, 0x22]"

definition msg_need_todo_title :: ustring where
  "msg_need_todo_title = [0xD560, 0x20, 0xC77C, 0x20, 0xB0B4, 0xC6A9, 0xC744, 0x20, 0xC54C, 0xB824, 0xC8FC, 0xC138, 0xC694, 0x2E, 0x20, 0xC608, 0x3A, 0x20, 0x22, 0xAE08, 0xC694, 0xC77C, 0xAE4C, 0xC9C0, 0x20, 0xBCF4, 0xACE0, 0xC11C, 0x20, 0xC791, 0xC131, 0x20, 0xD560, 0x20, 0xC77C, 0x20, 0xCD94, 0xAC00, 0xD574, 0xC918, 0x22]"

definition msg_event_added :: "ustring \<Rightarrow> ustring \<Rightarrow> ustring" where
  "msg_event_added ttl dateStr =
     [0x2705, 0x20, 0xC77C, 0xC815, 0xC774, 0x20, 0xCD94, 0xAC00, 0xB418, 0xC5C8, 0xC2B5, 0xB2C8, 0xB2E4, 0x21, 0xA, 0xA, 0xD83D, 0xDCC5, 0x20, 0x2A, 0x2A] @ ttl @ [0x2A, 0x2A, 0xA, 0x23F0, 0x20] @ dateStr"

definition msg_todo_added :: "ustring \<Rightarrow> ustring \<Rightarrow> ustring" where
  "msg_todo_added ttl dateStr =
     [0x2705, 0x20, 0xD560, 0x20, 0xC77C, 0xC774, 0x20, 0xCD94, 0xAC00, 0xB418, 0xC5C8, 0xC2B5, 0xB2C8, 0xB2E4, 0x21, 0xA, 0xA, 0xD83D, 0xDCDD, 0x20, 0x2A, 0x2A] @ ttl @ [0x2A, 0x2A, 0xA, 0xD83D, 0xDCC6, 0x20, 0xB9C8, 0xAC10, 0xC77C, 0x3A, 0x20] @ dateStr"

definition msg_memo_saved :: "ustring \<Rightarrow> ustring" where
  "msg_memo_saved ttl = [0x2705, 0x20, 0xBA54, 0xBAA8, 0xAC00, 0x20, 0xC800, 0xC7A5, 0xB418, 0xC5C8, 0xC2B5, 0xB2C8, 0xB2E4, 0x21, 0xA, 0xA, 0xD83D, 0xDCDD, 0x20, 0x2A, 0x2A] @ ttl @ [0x2A, 0x2A]"

definition msg_no_events :: ustring where
  "msg_no_events = [0xB4F1, 0xB85D, 0xB41C, 0x20, 0xC77C, 0xC815, 0xC774, 0x20, 0xC5C6, 0xC2B5, 0xB2C8, 0xB2E4, 0x2E]"

definition msg_events_header :: ustring where
  "msg_events_header = [0xD83D, 0xDCC5, 0x20, 0x2A, 0x2A, 0xB2E4, 0xAC00, 0xC624, 0xB294, 0x20, 0xC77C, 0xC815, 0x2A, 0x2A, 0xA, 0xA]"

definition msg_no_todos :: ustring where
  "msg_no_todos = [0xB4F1, 0xB85D, 0xB41C, 0x20, 0xD560, 0x20, 0xC77C, 0xC774, 0x20, 0xC5C6, 0xC2B5, 0xB2C8, 0xB2E4, 0x2E]"

definition msg_todos_header :: ustring where
  "msg_todos_header = [0xD83D, 0xDCDD, 0x20, 0x2A, 0x2A, 0xC9C4, 0xD589, 0x20, 0xC911, 0xC778, 0x20, 0xD560, 0x20, 0xC77C, 0x2A, 0x2A, 0xA, 0xA]"

definition bullet :: ustring where
  "bullet = [0x2022, 0x20]"

definition msg_command_failed :: ustring where
  "msg_command_failed = [0x26A0, 0xFE0F, 0x20, 0xBA85, 0xB839, 0x20, 0xCC98, 0xB9AC, 0x20, 0xC911, 0x20, 0xC624, 0xB958, 0xAC00, 0x20, 0xBC1C, 0xC0DD, 0xD588, 0xC2B5, 0xB2C8, 0xB2E4, 0x2E, 0x20, 0xB2E4, 0xC2DC, 0x20, 0xC2DC, 0xB3C4, 0xD574, 0xC8FC, 0xC138, 0xC694, 0x2E]"

definition status_done :: ustring where
  "status_done = [0xC644, 0xB8CC]"

text \<open>A title that is \<open>undefined\<close> or empty is falsy.\<close>

definition truthy :: "ustring option \<Rightarrow> ustring option" where
  "truthy x = (case x of Some s \<Rightarrow> if s = [] then None else Some s | None \<Rightarrow> None)"

text \<open>The \<open>forEach\<close> over the events to show: it stops at the first \<open>format\<close> that throws.\<close>

fun event_lines :: "host \<Rightarrow> CalendarEvent list \<Rightarrow> ustring \<Rightarrow> js_error + ustring" where
  "event_lines h [] response = Inr response"
| "event_lines h (event # events) response =
     (case format h (e_startDate event) fmt_event_line of
        Inl e \<Rightarrow> Inl e
      | Inr s \<Rightarrow> event_lines h events
                 (response @ bullet @ e_title event @ [0x20, 0x2D, 0x20] @ s @ [0x0A]))"

definition todo_lines :: "TodoItem list \<Rightarrow> ustring \<Rightarrow> ustring" where
  "todo_lines pending response =
     foldl (\<lambda>response todo. response @ bullet @ t_title todo @ [0x0A]) response pending"

text \<open>
  The body of the \<open>try\<close> block: the value returned or the error thrown, with the calls
  made.  \<open>now\<close> is the clock read by \<open>new Date()\<close>.
\<close>

definition executeCommand_try ::
  "backend \<Rightarrow> host \<Rightarrow> int \<Rightarrow> ParsedCommand \<Rightarrow> (js_error + ustring) \<times> call list" where
  "executeCommand_try b h now command =
     (if action command = Add \<and> entity command = Some Event then
        (case truthy (title command) of
           None \<Rightarrow> (Inr msg_need_event_title, [])
         | Some ttl \<Rightarrow>
            (let startDate = (case date command of Some d \<Rightarrow> d | None \<Rightarrow> TimeValue now);
                 endDate = addDays h startDate 0;
                 ev = \<lparr>ev_title = ttl, ev_startDate = startDate, ev_endDate = endDate,
                       ev_type = [0x70, 0x65, 0x72, 0x73, 0x6F, 0x6E, 0x61, 0x6C],
                       ev_color = [0x62, 0x67, 0x2D, 0x62, 0x6C, 0x75, 0x65, 0x2D, 0x31, 0x30, 0x30, 0x20, 0x74, 0x65, 0x78, 0x74, 0x2D, 0x62, 0x6C, 0x75, 0x65, 0x2D, 0x37, 0x30, 0x30, 0x20, 0x62, 0x6F, 0x72, 0x64, 0x65, 0x72, 0x2D, 0x6C, 0x2D, 0x34, 0x20, 0x62, 0x6F, 0x72, 0x64, 0x65, 0x72, 0x2D, 0x62, 0x6C, 0x75, 0x65, 0x2D, 0x36, 0x30, 0x30]\<rparr>
             in case createEvent b ev of
                  Inl e \<Rightarrow> (Inl e, [CreateEvent ev])
                | Inr (Some error) \<Rightarrow> (Inl error, [CreateEvent ev])
                | Inr None \<Rightarrow>
                   (case format h startDate fmt_event_added of
                      Inl e \<Rightarrow> (Inl e, [CreateEvent ev])
                    | Inr dateStr \<Rightarrow> (Inr (msg_event_added ttl dateStr), [CreateEvent ev]))))
      else if action command = Add \<and> entity command = Some Todo then
        (case truthy (title command) of
           None \<Rightarrow> (Inr msg_need_todo_title, [])
         | Some ttl \<Rightarrow>
            (let dueDate = (case date command of Some d \<Rightarrow> d
                            | None \<Rightarrow> addDays h (TimeValue now) 1)
             in case format h dueDate fmt_dueDate of
                  Inl e \<Rightarrow> (Inl e, [])
                | Inr due \<Rightarrow>
                   (let td = \<lparr>nt_title = ttl, nt_dueDate = due, nt_status = [0xB300, 0xAE30],
                              nt_priority = [0xC911], nt_project = [0xAE30, 0xD0C0], nt_assignee = [0xB098],
                              nt_description = []\<rparr>
                    in case createTodo b td of
                         Inl e \<Rightarrow> (Inl e, [CreateTodo td])
                       | Inr (Some error) \<Rightarrow> (Inl error, [CreateTodo td])
                       | Inr None \<Rightarrow>
                          (case format h dueDate fmt_todo_added of
                             Inl e \<Rightarrow> (Inl e, [CreateTodo td])
                           | Inr dateStr \<Rightarrow>
                               (Inr (msg_todo_added ttl dateStr), [CreateTodo td])))))
      else if action command = Add \<and> entity command = Some Memo then
        (let ttl = (case truthy (title command) of Some t \<Rightarrow> t | None \<Rightarrow> [0xC0C8, 0x20, 0xBA54, 0xBAA8]);
             cnt = (case truthy (content command) of Some c \<Rightarrow> c
                    | None \<Rightarrow> originalMessage command);
             mm = \<lparr>nm_title = ttl, nm_content = cnt, nm_tags = [], nm_isPinned = False\<rparr>
         in case createMemo b mm of
              Inl e \<Rightarrow> (Inl e, [CreateMemo mm])
            | Inr (Some error) \<Rightarrow> (Inl error, [CreateMemo mm])
            | Inr None \<Rightarrow> (Inr (msg_memo_saved ttl), [CreateMemo mm]))
      else if action command = List \<and> entity command = Some Event then
        (case getEvents b of
           Inl e \<Rightarrow> (Inl e, [GetEvents])
         | Inr (data, error) \<Rightarrow>
             if data = [] then (Inr msg_no_events, [GetEvents])
             else (event_lines h (take 5 data) msg_events_header, [GetEvents]))
      else if action command = List \<and> entity command = Some Todo then
        (case getTodos b of
           Inl e \<Rightarrow> (Inl e, [GetTodos])
         | Inr (data, error) \<Rightarrow>
             if data = [] then (Inr msg_no_todos, [GetTodos])
             else (let pending = take 5 (filter (\<lambda>t. t_status t \<noteq> status_done) data)
                   in (Inr (todo_lines pending msg_todos_header), [GetTodos])))
      else (Inr [], []))"

text \<open>\<open>executeCommand\<close>: the \<open>catch\<close> logs the error and returns the failure text.\<close>

definition executeCommand ::
  "backend \<Rightarrow> host \<Rightarrow> int \<Rightarrow> ParsedCommand \<Rightarrow> ustring \<times> call list" where
  "executeCommand b h now command =
     (case executeCommand_try b h now command of
        (Inr response, calls) \<Rightarrow> (response, calls)
      | (Inl error, calls) \<Rightarrow> (msg_command_failed, calls))"

subsection \<open>\<open>sendMessage\<close>\<close>

record Reply =
  response :: ustring
  command :: "ParsedCommand option"

definition msg_model_unreachable :: ustring where
  "msg_model_unreachable = [0x26A0, 0xFE0F, 0x20, 0x41, 0x49, 0x20, 0xBAA8, 0xB378, 0x20, 0xC5F0, 0xACB0, 0xC5D0, 0x20, 0xBB38, 0xC81C, 0xAC00, 0x20, 0xC788, 0xC2B5, 0xB2C8, 0xB2E4, 0x2E, 0x20, 0xC7A0, 0xC2DC, 0x20, 0xD6C4, 0x20, 0xB2E4, 0xC2DC, 0x20, 0xC2DC, 0xB3C4, 0xD574, 0xC8FC, 0xC138, 0xC694, 0x2E]"

definition msg_request_failed :: ustring where
  "msg_request_failed = [0x26A0, 0xFE0F, 0x20, 0xC8C4, 0xC1A1, 0xD569, 0xB2C8, 0xB2E4, 0x2E, 0x20, 0xC694, 0xCCAD, 0xC744, 0x20, 0xCC98, 0xB9AC, 0xD558, 0xB294, 0x20, 0xC911, 0x20, 0xC624, 0xB958, 0xAC00, 0x20, 0xBC1C, 0xC0DD, 0xD588, 0xC2B5, 0xB2C8, 0xB2E4, 0x2E, 0x20, 0xB2E4, 0xC2DC, 0x20, 0xC2DC, 0xB3C4, 0xD574, 0xC8FC, 0xC138, 0xC694, 0x2E]"

text \<open>The body of the \<open>try\<close> block; \<open>now\<close> is the clock when the message is parsed and
  \<open>now'\<close> the clock when the command is executed.\<close>

definition sendMessage_try ::
  "backend \<Rightarrow> host \<Rightarrow> int \<Rightarrow> int \<Rightarrow> ustring \<Rightarrow> (js_error + Reply) \<times> call list" where
  "sendMessage_try b h now now' message =
     (let cmd = parseCommand h now message;
          (result, calls) =
            (if action cmd \<noteq> Chat \<and> entity cmd \<noteq> None
             then executeCommand b h now' cmd else ([], []))
      in if result \<noteq> [] then (Inr \<lparr>response = result, command = Some cmd\<rparr>, calls)
         else
           (case converse b message of
              Inl e \<Rightarrow> (Inl e, calls @ [Converse message])
            | Inr text \<Rightarrow>
                (Inr \<lparr>response = text, command = None\<rparr>, calls @ [Converse message])))"

text \<open>\<open>sendMessage\<close>: the value returned to the caller (\<open>Inr\<close>), or the error thrown to
  it (\<open>Inl\<close>), with the calls made.\<close>

definition sendMessage ::
  "backend \<Rightarrow> host \<Rightarrow> int \<Rightarrow> int \<Rightarrow> ustring \<Rightarrow> (js_error + Reply) \<times> call list" where
  "sendMessage b h now now' message =
     (case sendMessage_try b h now now' message of
        (Inr r, calls) \<Rightarrow> (Inr r, calls)
      | (Inl error, calls) \<Rightarrow>
          (if (case err_message error of Some m \<Rightarrow> str_includes m [0x34, 0x30, 0x34] | None \<Rightarrow> False)
           then (Inr \<lparr>response = msg_model_unreachable, command = None\<rparr>, calls)
           else (Inr \<lparr>response = msg_request_failed, command = None\<rparr>, calls)))"

section \<open>Substrings\<close>

lemma startsWith_iff: "startsWith s k \<longleftrightarrow> (\<exists>b. s = k @ b)"
  by (induction s k rule: startsWith.induct) auto

lemma str_includes_iff: "str_includes s k \<longleftrightarrow> (\<exists>a b. s = a @ k @ b)"
proof (induction s)
  case Nil
  show ?case by auto
next
  case (Cons x xs)
  have "(\<exists>a b. x # xs = a @ k @ b) \<longleftrightarrow> (\<exists>b. x # xs = k @ b) \<or> (\<exists>a b. xs = a @ k @ b)"
  proof
    assume "\<exists>a b. x # xs = a @ k @ b"
    then obtain a b where ab: "x # xs = a @ k @ b" by blast
    show "(\<exists>b. x # xs = k @ b) \<or> (\<exists>a b. xs = a @ k @ b)"
    proof (cases a)
      case Nil
      then show ?thesis using ab by auto
    next
      case (Cons y ys)
      then have "xs = ys @ k @ b" using ab by simp
      then show ?thesis by blast
    qed
  next
    assume "(\<exists>b. x # xs = k @ b) \<or> (\<exists>a b. xs = a @ k @ b)"
    then show "\<exists>a b. x # xs = a @ k @ b"
    proof
      assume "\<exists>b. x # xs = k @ b"
      then obtain b where "x # xs = [] @ k @ b" by auto
      then show ?thesis by blast
    next
      assume "\<exists>a b. xs = a @ k @ b"
      then obtain a b where "x # xs = (x # a) @ k @ b" by auto
      then show ?thesis by blast
    qed
  qed
  then show ?case using Cons by (simp add: startsWith_iff)
qed

lemma includes_any_iff:
  "includes_any s ks \<longleftrightarrow> (\<exists>k\<in>set ks. \<exists>a b. s = a @ k @ b)"
  by (auto simp add: includes_any_def find_None_iff str_includes_iff)

section \<open>Properties of \<open>parseCommand\<close>\<close>

lemma parseCommand_action_entity:
  "action (parseCommand h now message) =
     (let lowerMessage = toLowerCase h message in
      if \<not> (includes_any lowerMessage addKeywords \<or> includes_any lowerMessage deleteKeywords
             \<or> includes_any lowerMessage listKeywords) then Chat
      else if \<not> (includes_any lowerMessage eventWords \<or> includes_any lowerMessage todoWords
             \<or> includes_any lowerMessage memoWords) then Chat
      else if includes_any lowerMessage addKeywords then Add
      else if includes_any lowerMessage deleteKeywords then Delete else List)"
  "entity (parseCommand h now message) =
     (let lowerMessage = toLowerCase h message in
      if \<not> (includes_any lowerMessage addKeywords \<or> includes_any lowerMessage deleteKeywords
             \<or> includes_any lowerMessage listKeywords) then None
      else if includes_any lowerMessage eventWords then Some Event
      else if includes_any lowerMessage todoWords then Some Todo
      else if includes_any lowerMessage memoWords then Some Memo else None)"
  by (simp_all add: parseCommand_def Let_def split: option.split prod.split)

lemma parseCommand_originalMessage: "originalMessage (parseCommand h now message) = message"
  by (simp add: parseCommand_def Let_def split: option.split prod.split)

text \<open>
  A host for the worked examples: lower-casing of the ASCII letters (the other code
  units of the examples have no case) and Korea Standard Time, nine hours ahead of UTC
  all year.
\<close>

definition lower_ascii :: "ustring \<Rightarrow> ustring" where
  "lower_ascii = map (\<lambda>c. if 0x41 \<le> c \<and> c \<le> 0x5A then c + 0x20 else c)"

definition kst :: host where
  "kst = \<lparr>toLowerCase = lower_ascii, LocalTZA = (\<lambda>t isUTC. 32400000)\<rparr>"

text \<open>
  Claim C3.  The action is classified by a fixed precedence over the lower-cased
  message: \<open>add\<close> if an add keyword occurs in it, otherwise \<open>delete\<close> if a delete keyword
  occurs, otherwise \<open>list\<close> if a list keyword occurs, otherwise \<open>chat\<close>.  The entity
  (event words first, then todo words, then memo words) is looked for only when the
  action is not \<open>chat\<close>; when an action is found but no entity word occurs, the command
  returned has action \<open>chat\<close> and no entity.
\<close>

theorem parseCommand_precedence:
  "let lower = toLowerCase h message;
       has = (\<lambda>ks. \<exists>k\<in>set ks. \<exists>a b. lower = a @ k @ b);
       act = (if has addKeywords then Add else if has deleteKeywords then Delete
              else if has listKeywords then List else Chat);
       ent = (if has eventWords then Some Event else if has todoWords then Some Todo
              else if has memoWords then Some Memo else None)
   in action (parseCommand h now message) = (if ent = None then Chat else act)
    \<and> entity (parseCommand h now message) = (if act = Chat then None else ent)"
  unfolding includes_any_iff [symmetric] parseCommand_action_entity Let_def by simp

text \<open>The message "iljeong sakje chuga" (event, delete, add): \<open>add\<close> wins over \<open>delete\<close>.\<close>

theorem parseCommand_precedence_witness:
  "action (parseCommand kst 0 [0xC77C, 0xC815, 0x20, 0xC0AD, 0xC81C, 0x20, 0xCD94, 0xAC00]) = Add
   \<and> entity (parseCommand kst 0 [0xC77C, 0xC815, 0x20, 0xC0AD, 0xC81C, 0x20, 0xCD94, 0xAC00]) = Some Event"
  using parseCommand_precedence [of kst "[0xC77C, 0xC815, 0x20, 0xC0AD, 0xC81C, 0x20, 0xCD94, 0xAC00]" 0]
  unfolding includes_any_iff [symmetric]
  by (simp add: Let_def includes_any_def kst_def lower_ascii_def addKeywords_def
      deleteKeywords_def listKeywords_def eventWords_def todoWords_def memoWords_def)

section \<open>Properties of the date arithmetic\<close>

lemma MonthFromTime_range: "0 \<le> MonthFromTime t \<and> MonthFromTime t \<le> 11"
  by (simp add: MonthFromTime_def Let_def)

lemma Day_MakeDate: "0 \<le> tm \<Longrightarrow> tm < msPerDay \<Longrightarrow> Day (MakeDate d tm) = d"
  by (simp add: Day_def MakeDate_def msPerDay_def div_pos_pos_trivial)

lemma TimeWithinDay_MakeDate:
  "0 \<le> tm \<Longrightarrow> tm < msPerDay \<Longrightarrow> TimeWithinDay (MakeDate d tm) = tm"
  by (simp add: TimeWithinDay_def MakeDate_def msPerDay_def)

lemma MakeDate_Day: "MakeDate (Day t) (TimeWithinDay t) = t"
  by (simp add: MakeDate_def Day_def TimeWithinDay_def)

lemma TimeWithinDay_range: "0 \<le> TimeWithinDay t \<and> TimeWithinDay t < msPerDay"
  by (simp add: TimeWithinDay_def msPerDay_def)

text \<open>
  Setting the day of the month to today's plus \<open>n\<close> moves the day number by \<open>n\<close>: the
  result of \<open>setDate\<close> is the instant at which the local clock reads what it reads now,
  \<open>n\<close> days on.  Where the offset changes in between, that is not \<open>n\<close> times 24 hours
  from now.
\<close>

lemma MakeDay_shift:
  "MakeDay (YearFromTime t) (MonthFromTime t) (DateFromTime t + n) = Day t + n"
proof -
  have m: "MonthFromTime t div 12 = 0" "MonthFromTime t mod 12 = MonthFromTime t"
    using MonthFromTime_range [of t] by simp_all
  show ?thesis
    by (simp add: MakeDay_def m DateFromTime_def DayWithinYear_def InLeapYear_def)
qed







section \<open>Properties of \<open>parseKoreanDate\<close>\<close>







text \<open>The number of days of month \<open>m\<close> (0 to 11) in a year with \<open>leap\<close> 0 or 1.\<close>

lemma leap_cases: "(if DaysInYear y = 366 then 1 else 0) = (DaysInYear y - 365)"
  using DaysInYear_bounds [of y] by (auto simp add: DaysInYear_def)

lemma month_cases:
  "0 \<le> (m::int) \<Longrightarrow> m \<le> 11 \<Longrightarrow>
   m = 0 \<or> m = 1 \<or> m = 2 \<or> m = 3 \<or> m = 4 \<or> m = 5 \<or> m = 6 \<or> m = 7 \<or> m = 8
   \<or> m = 9 \<or> m = 10 \<or> m = 11"
  by presburger

lemma month_start_mono:
  assumes "0 \<le> m" "m \<le> 11" "0 \<le> l" "l \<le> 1"
  shows "0 \<le> month_start m l \<and> month_start m l < month_start (m + 1) l
         \<and> month_start (m + 1) l \<le> 365 + l"
proof -
  have "m = 0 \<or> m = 1 \<or> m = 2 \<or> m = 3 \<or> m = 4 \<or> m = 5 \<or> m = 6 \<or> m = 7 \<or> m = 8
        \<or> m = 9 \<or> m = 10 \<or> m = 11" using assms(1,2) by (rule month_cases)
  then show ?thesis using assms(3,4) by (elim disjE) (simp_all add: month_start_def)
qed

lemma MonthFromTime_char:
  assumes "0 \<le> m" "m \<le> 11"
    and "month_start m (InLeapYear t) \<le> DayWithinYear t"
    and "DayWithinYear t < month_start (m + 1) (InLeapYear t)"
  shows "MonthFromTime t = m"
proof -
  have l: "InLeapYear t = 0 \<or> InLeapYear t = 1" by (simp add: InLeapYear_def)
  have "m = 0 \<or> m = 1 \<or> m = 2 \<or> m = 3 \<or> m = 4 \<or> m = 5 \<or> m = 6 \<or> m = 7 \<or> m = 8
        \<or> m = 9 \<or> m = 10 \<or> m = 11" using assms(1,2) by (rule month_cases)
  then show ?thesis
    using assms(3,4) l
    by (elim disjE) (auto simp add: month_start_def MonthFromTime_def Let_def)
qed

text \<open>
  The fields of a date made from a year, a month from 0 to 11 and a day of that month
  are that year, month and day.
\<close>

lemma fields_of_MakeDay:
  assumes m: "0 \<le> m" "m \<le> 11"
    and d: "1 \<le> d" "d \<le> month_start (m + 1) (DaysInYear y - 365) - month_start m (DaysInYear y - 365)"
    and tm: "0 \<le> tm" "tm < msPerDay"
  shows "YearFromTime (MakeDate (MakeDay y m d) tm) = y"
    and "MonthFromTime (MakeDate (MakeDay y m d) tm) = m"
    and "DateFromTime (MakeDate (MakeDay y m d) tm) = d"
proof -
  let ?l = "DaysInYear y - 365"
  let ?t = "MakeDate (MakeDay y m d) tm"
  have l: "0 \<le> ?l" "?l \<le> 1" using DaysInYear_bounds [of y] by simp_all
  have md: "MakeDay y m d = DayFromYear y + month_start m ?l + d - 1"
    using m by (simp add: MakeDay_def leap_cases)
  have day: "Day ?t = DayFromYear y + month_start m ?l + d - 1"
    using Day_MakeDate [OF tm] md by simp
  have ms: "0 \<le> month_start m ?l" "month_start m ?l < month_start (m + 1) ?l"
      "month_start (m + 1) ?l \<le> 365 + ?l"
    using month_start_mono [OF m l] by simp_all
  have lo: "DayFromYear y \<le> Day ?t" using day ms d by linarith
  have hi: "Day ?t < DayFromYear (y + 1)"
    using day ms d by (simp add: DayFromYear_Suc)
  show y: "YearFromTime ?t = y" using lo hi by (rule YearFromTime_unique)
  have il: "InLeapYear ?t = ?l" by (simp add: InLeapYear_def y leap_cases)
  have dwy: "DayWithinYear ?t = month_start m ?l + d - 1"
    by (simp add: DayWithinYear_def y day)
  show mo: "MonthFromTime ?t = m"
    using m by (rule MonthFromTime_char) (use d in \<open>simp_all add: il dwy\<close>)
  show "DateFromTime ?t = d" by (simp add: DateFromTime_def mo il dwy)
qed

text \<open>The number of days of month \<open>m\<close> (1 to 12) of year \<open>y\<close>.\<close>

definition DaysInMonth :: "int \<Rightarrow> int \<Rightarrow> int" where
  "DaysInMonth y m =
     (if m = 2 then DaysInYear y - 337
      else if m = 4 \<or> m = 6 \<or> m = 9 \<or> m = 11 then 30 else 31)"

lemma month_length:
  assumes "1 \<le> m" "m \<le> 12"
  shows "month_start m (DaysInYear y - 365) - month_start (m - 1) (DaysInYear y - 365)
         = DaysInMonth y m"
proof -
  have "m - 1 = 0 \<or> m - 1 = 1 \<or> m - 1 = 2 \<or> m - 1 = 3 \<or> m - 1 = 4 \<or> m - 1 = 5
        \<or> m - 1 = 6 \<or> m - 1 = 7 \<or> m - 1 = 8 \<or> m - 1 = 9 \<or> m - 1 = 10 \<or> m - 1 = 11"
    using assms by (intro month_cases) simp_all
  then have "m = 1 \<or> m = 2 \<or> m = 3 \<or> m = 4 \<or> m = 5 \<or> m = 6 \<or> m = 7 \<or> m = 8 \<or> m = 9
        \<or> m = 10 \<or> m = 11 \<or> m = 12" by auto
  then show ?thesis by (elim disjE) (simp_all add: month_start_def DaysInMonth_def)
qed

lemma DayWithinYear_range: "0 \<le> DayWithinYear t \<and> DayWithinYear t < DaysInYear (YearFromTime t)"
  using YearFromTime_spec [of t] by (simp add: DayWithinYear_def DayFromYear_Suc)

lemma DateFromTime_range:
  "1 \<le> DateFromTime t \<and> DateFromTime t \<le> DaysInMonth (YearFromTime t) (MonthFromTime t + 1)"
proof -
  let ?y = "YearFromTime t"
  have l: "InLeapYear t = DaysInYear ?y - 365" by (simp add: InLeapYear_def leap_cases)
  have dy: "DaysInYear ?y = 365 \<or> DaysInYear ?y = 366"
    using DaysInYear_bounds [of ?y] by linarith
  show ?thesis
    using DayWithinYear_range [of t] dy
    by (auto simp add: DateFromTime_def MonthFromTime_def Let_def l month_start_def DaysInMonth_def)
qed

text \<open>
  The local time \<open>x\<close> is regular on the host's clock: its offset from UTC is within a
  day, and it is what the local clock reads at the instant \<open>UTC x\<close>.  In a zone with a
  fixed offset every local time is regular; with daylight saving, every local time
  but those inside the hour skipped when the clocks move forward.
\<close>

definition regular_at :: "host \<Rightarrow> int \<Rightarrow> bool" where
  "regular_at h x \<longleftrightarrow> \<bar>LocalTZA h x False\<bar> \<le> msPerDay \<and> LocalTime h (UTC h x) = x"

lemma fixed_offset_regular:
  "\<forall>t isUTC. LocalTZA h t isUTC = z \<Longrightarrow> \<bar>z\<bar> \<le> msPerDay \<Longrightarrow> regular_at h x"
  by (simp add: regular_at_def LocalTime_def UTC_def)

text \<open>Every midnight of the years 1970 to 275001 is a valid time value.\<close>

lemma DayFromYear_1970: "DayFromYear 1970 = 0"
  by (simp add: DayFromYear_def)

lemma DayFromYear_275002: "DayFromYear 275002 = 99722890"
  by (simp add: DayFromYear_def)

lemma midnight_valid:
  assumes y: "1970 \<le> y" "y \<le> 275001"
    and m: "0 \<le> m" "m \<le> 11"
    and d: "1 \<le> d" "d \<le> 31"
    and z: "\<bar>LocalTZA h (MakeDate (MakeDay y m d) 0) False\<bar> \<le> msPerDay"
  shows "TimeClip (UTC h (MakeDate (MakeDay y m d) 0))
         = TimeValue (UTC h (MakeDate (MakeDay y m d) 0))"
proof -
  let ?l = "DaysInYear y - 365"
  have l: "0 \<le> ?l" "?l \<le> 1" using DaysInYear_bounds [of y] by simp_all
  have md: "MakeDay y m d = DayFromYear y + month_start m ?l + d - 1"
    using m by (simp add: MakeDay_def leap_cases)
  have ms: "0 \<le> month_start m ?l" "month_start m ?l < 365 + ?l"
    using month_start_mono [OF m l] by simp_all
  have lo: "0 \<le> DayFromYear y" using DayFromYear_mono [OF y(1)] by (simp add: DayFromYear_1970)
  have "DayFromYear (y + 1) \<le> DayFromYear 275002" using y(2) by (intro DayFromYear_mono) simp
  then have hi: "DayFromYear y + DaysInYear y \<le> 99722890"
    by (simp add: DayFromYear_Suc DayFromYear_275002)
  have r: "0 \<le> MakeDay y m d" "MakeDay y m d \<le> 99722890 + 31"
    using md ms lo hi d by linarith+
  have "\<bar>MakeDay y m d * 86400000 - LocalTZA h (MakeDay y m d * 86400000) False\<bar>
          \<le> 8640000000000000"
    using r z by (simp add: msPerDay_def abs_le_iff MakeDate_def)
  then show ?thesis by (simp add: TimeClip_def UTC_def MakeDate_def msPerDay_def)
qed

lemma DaysInMonth_le_31: "DaysInMonth y m \<le> 31"
  using DaysInYear_bounds [of y] by (simp add: DaysInMonth_def)

text \<open>The fields of the local midnight that \<open>new Date(y, m - 1, d)\<close> makes of a day of the calendar.\<close>

lemma new_Date_fields:
  assumes y: "1970 \<le> y" "y \<le> 275001"
    and m: "1 \<le> m" "m \<le> 12"
    and d: "1 \<le> d" "d \<le> DaysInMonth y m"
    and z: "regular_at h (MakeDate (MakeDay y (m - 1) d) 0)"
  shows "\<exists>T. new_Date h y (m - 1) d = TimeValue T
            \<and> LocalTime h T = MakeDate (MakeDay y (m - 1) d) 0
            \<and> getFullYear h T = y \<and> getMonth h T = m - 1 \<and> getDate h T = d
            \<and> TimeWithinDay (LocalTime h T) = 0"
proof -
  let ?lt = "MakeDate (MakeDay y (m - 1) d) 0"
  let ?T = "UTC h ?lt"
  have zb: "\<bar>LocalTZA h ?lt False\<bar> \<le> msPerDay" using z by (simp add: regular_at_def)
  have m': "0 \<le> m - 1" "m - 1 \<le> 11" using m by simp_all
  have d31: "d \<le> 31" using d(2) DaysInMonth_le_31 [of y m] by linarith
  have nd: "new_Date h y (m - 1) d = TimeValue ?T"
    using y midnight_valid [OF y m' d(1) d31 zb] by (simp add: new_Date_def MakeTime_def)
  have lt: "LocalTime h ?T = ?lt" using z by (simp add: regular_at_def)
  have dm: "d \<le> month_start (m - 1 + 1) (DaysInYear y - 365)
              - month_start (m - 1) (DaysInYear y - 365)"
    using d(2) month_length [OF m, of y] by simp
  have tm: "(0::int) \<le> 0" "(0::int) < msPerDay" by (simp_all add: msPerDay_def)
  have f: "YearFromTime ?lt = y" "MonthFromTime ?lt = m - 1" "DateFromTime ?lt = d"
    using fields_of_MakeDay [OF m' d(1) dm tm] by simp_all
  have w: "TimeWithinDay ?lt = 0" using TimeWithinDay_MakeDate [OF tm] by simp
  show ?thesis
    using nd lt f w by (intro exI [of _ ?T]) (simp add: getFullYear_def getMonth_def getDate_def)
qed

lemma new_Date_plain:
  "y < 0 \<or> 99 < y \<Longrightarrow> new_Date h y m d = TimeClip (UTC h (MakeDate (MakeDay y m d) 0))"
  by (auto simp add: new_Date_def MakeTime_def)

text \<open>\<open>setFullYear\<close> rebuilds the date from the new year and the old month and day.\<close>

lemma setFullYear_new_Date:
  assumes "LocalTime h T = MakeDate (MakeDay y m d) 0"
    and "MonthFromTime (LocalTime h T) = m" and "DateFromTime (LocalTime h T) = d"
    and "y' < 0 \<or> 99 < y'"
  shows "setFullYear h T y' = new_Date h y' m d"
proof -
  have tm: "(0::int) \<le> 0" "(0::int) < msPerDay" by (simp_all add: msPerDay_def)
  have "TimeWithinDay (LocalTime h T) = 0"
    using TimeWithinDay_MakeDate [OF tm] assms(1) by simp
  then show ?thesis
    using assms(2,3) by (simp add: setFullYear_def new_Date_plain [OF assms(4)] Let_def)
qed

text \<open>29 February carried into a year without one is 1 March.\<close>

lemma MakeDay_feb29: "DaysInYear y = 365 \<Longrightarrow> MakeDay y 1 29 = MakeDay y 2 1"
  by (simp add: MakeDay_def month_start_def)

lemma leap_next: "DaysInYear y = 366 \<Longrightarrow> DaysInYear (y + 1) = 365"
proof -
  assume "DaysInYear y = 366"
  then have "y mod 4 = 0" by (auto simp add: DaysInYear_def split: if_splits)
  then have "(y + 1) mod 4 \<noteq> 0" by presburger
  then show ?thesis by (simp add: DaysInYear_def)
qed

text \<open>The month-and-day branch of \<open>parseKoreanDate\<close>.\<close>

lemma parseKoreanDate_monthDay_branch:
  assumes "\<not> str_includes (toLowerCase h text) w_today"
    and "\<not> str_includes (toLowerCase h text) w_tomorrow"
    and "\<not> str_includes (toLowerCase h text) w_day_after_tomorrow"
    and "\<forall>p\<in>set dayMap. \<not> str_includes (toLowerCase h text) (fst p)"
    and "match (toLowerCase h text) rx_daysLater = None"
    and "match (toLowerCase h text) rx_weeksLater = None"
    and "match (toLowerCase h text) rx_monthDay = Some c"
    and "cap_int c 1 = Some M" and "cap_int c 2 = Some D"
  shows "parseKoreanDate h now text =
           Some (case new_Date h (getFullYear h now) (M - 1) D of
                   TimeValue result \<Rightarrow>
                     if result < now then setFullYear h result (getFullYear h result + 1)
                     else TimeValue result
                 | InvalidDate \<Rightarrow> InvalidDate)"
proof -
  have "find (\<lambda>(day, f). str_includes (toLowerCase h text) day) dayMap = None"
    using assms(4) by (auto simp add: find_None_iff)
  then show ?thesis
    using assms(1-3,5-9) by (simp add: parseKoreanDate_def Let_def)
qed

lemma monthDay_core:
  assumes "\<not> str_includes (toLowerCase h text) w_today"
    and "\<not> str_includes (toLowerCase h text) w_tomorrow"
    and "\<not> str_includes (toLowerCase h text) w_day_after_tomorrow"
    and "\<forall>p\<in>set dayMap. \<not> str_includes (toLowerCase h text) (fst p)"
    and "match (toLowerCase h text) rx_daysLater = None"
    and "match (toLowerCase h text) rx_weeksLater = None"
    and "match (toLowerCase h text) rx_monthDay = Some c"
    and "cap_int c 1 = Some M" and "cap_int c 2 = Some D"
    and y: "1970 \<le> getFullYear h now" "getFullYear h now < 275000"
    and z: "regular_at h (MakeDate (MakeDay (getFullYear h now) (M - 1) D) 0)"
    and z': "regular_at h (MakeDate (MakeDay (getFullYear h now + 1) (M - 1) D) 0)"
    and m: "1 \<le> M" "M \<le> 12"
    and d: "1 \<le> D" "D \<le> DaysInMonth (getFullYear h now) M"
  shows "\<exists>T T'. new_Date h (getFullYear h now) (M - 1) D = TimeValue T
           \<and> new_Date h (getFullYear h now + 1) (M - 1) D = TimeValue T'
           \<and> LocalTime h T = MakeDate (MakeDay (getFullYear h now) (M - 1) D) 0
           \<and> getFullYear h T = getFullYear h now \<and> getMonth h T + 1 = M \<and> getDate h T = D
           \<and> TimeWithinDay (LocalTime h T) = 0
           \<and> parseKoreanDate h now text = Some (TimeValue (if T < now then T' else T))
           \<and> getFullYear h T' = getFullYear h now + 1
           \<and> TimeWithinDay (LocalTime h T') = 0
           \<and> (if M = 2 \<and> D = 29 then getMonth h T' + 1 = 3 \<and> getDate h T' = 1
               else getMonth h T' + 1 = M \<and> getDate h T' = D)"
proof -
  let ?Y = "getFullYear h now"
  have y1: "1970 \<le> ?Y" "?Y \<le> 275001" using y by simp_all
  have y2: "1970 \<le> ?Y + 1" "?Y + 1 \<le> 275001" using y by simp_all
  obtain T where T: "new_Date h ?Y (M - 1) D = TimeValue T"
      "LocalTime h T = MakeDate (MakeDay ?Y (M - 1) D) 0"
      "getFullYear h T = ?Y" "getMonth h T = M - 1" "getDate h T = D"
      "TimeWithinDay (LocalTime h T) = 0"
    using new_Date_fields [OF y1 m d z] by blast
  have nn: "?Y + 1 < 0 \<or> 99 < ?Y + 1" using y by simp
  have sfy: "setFullYear h T (getFullYear h T + 1) = new_Date h (?Y + 1) (M - 1) D"
    using setFullYear_new_Date [OF T(2) _ _ nn] T(3,4,5) by (simp add: getMonth_def getDate_def)
  have tm: "(0::int) \<le> 0" "(0::int) < msPerDay" by (simp_all add: msPerDay_def)
  have "\<exists>T'. new_Date h (?Y + 1) (M - 1) D = TimeValue T'
          \<and> getFullYear h T' = ?Y + 1 \<and> TimeWithinDay (LocalTime h T') = 0
          \<and> (if M = 2 \<and> D = 29 then getMonth h T' + 1 = 3 \<and> getDate h T' = 1
              else getMonth h T' + 1 = M \<and> getDate h T' = D)"
  proof (cases "M = 2 \<and> D = 29")
    case True
    then have "DaysInYear ?Y = 366"
      using d(2) DaysInYear_bounds [of ?Y] by (simp add: DaysInMonth_def)
    then have ny: "DaysInYear (?Y + 1) = 365" by (rule leap_next)
    have e: "new_Date h (?Y + 1) (M - 1) D = new_Date h (?Y + 1) (3 - 1) 1"
      using True MakeDay_feb29 [OF ny] by (simp add: new_Date_plain [OF nn])
    have d3: "(1::int) \<le> DaysInMonth (?Y + 1) 3" by (simp add: DaysInMonth_def)
    have z3: "regular_at h (MakeDate (MakeDay (?Y + 1) (3 - 1) 1) 0)"
      using z' True MakeDay_feb29 [OF ny] by simp
    obtain T' where "new_Date h (?Y + 1) (3 - 1) 1 = TimeValue T'"
        "getFullYear h T' = ?Y + 1" "getMonth h T' = 3 - 1" "getDate h T' = 1"
        "TimeWithinDay (LocalTime h T') = 0"
      using new_Date_fields [OF y2 _ _ _ d3 z3] by auto
    then show ?thesis using True e by (intro exI [of _ T']) simp
  next
    case False
    have "D \<le> DaysInMonth (?Y + 1) M"
    proof (cases "M = 2")
      case True
      then have "D \<le> 28" using False d(2) DaysInYear_bounds [of ?Y] by (simp add: DaysInMonth_def)
      then show ?thesis using True DaysInYear_bounds [of "?Y + 1"] by (simp add: DaysInMonth_def)
    next
      case False
      then show ?thesis using d(2) by (simp add: DaysInMonth_def)
    qed
    then obtain T' where "new_Date h (?Y + 1) (M - 1) D = TimeValue T'"
        "getFullYear h T' = ?Y + 1" "getMonth h T' = M - 1" "getDate h T' = D"
        "TimeWithinDay (LocalTime h T') = 0"
      using new_Date_fields [OF y2 m d(1) _ z'] by blast
    then show ?thesis using False by (intro exI [of _ T']) simp
  qed
  then obtain T' where T': "new_Date h (?Y + 1) (M - 1) D = TimeValue T'"
      "getFullYear h T' = ?Y + 1" "TimeWithinDay (LocalTime h T') = 0"
      "if M = 2 \<and> D = 29 then getMonth h T' + 1 = 3 \<and> getDate h T' = 1
       else getMonth h T' + 1 = M \<and> getDate h T' = D"
    by blast
  have p: "parseKoreanDate h now text = Some (TimeValue (if T < now then T' else T))"
    using parseKoreanDate_monthDay_branch [OF assms(1-9), of now] T(1) sfy T'(1) by simp
  show ?thesis
    using T T' p by (intro exI [of _ T] exI [of _ T']) simp
qed


text \<open>
  Claim C8, as the code has it.  Under the same conditions on the text and the clock,
  when today is day \<open>D\<close> of month \<open>M\<close> and the call comes after local midnight (the
  offset from UTC being now what it was at that midnight), the
  result is local midnight of the same month and day of the next year, except that on
  29 February it is 1 March of the next year.
\<close>

theorem parseKoreanDate_monthDay_today:
  assumes "\<not> str_includes (toLowerCase h text) w_today"
    and "\<not> str_includes (toLowerCase h text) w_tomorrow"
    and "\<not> str_includes (toLowerCase h text) w_day_after_tomorrow"
    and "\<forall>p\<in>set dayMap. \<not> str_includes (toLowerCase h text) (fst p)"
    and "match (toLowerCase h text) rx_daysLater = None"
    and "match (toLowerCase h text) rx_weeksLater = None"
    and "match (toLowerCase h text) rx_monthDay = Some c"
    and "cap_int c 1 = Some M" and "cap_int c 2 = Some D"
    and "1970 \<le> getFullYear h now" and "getFullYear h now < 275000"
    and "regular_at h (MakeDate (MakeDay (getFullYear h now) (M - 1) D) 0)"
    and "regular_at h (MakeDate (MakeDay (getFullYear h now + 1) (M - 1) D) 0)"
    and today: "getMonth h now + 1 = M" "getDate h now = D"
    and after: "0 < TimeWithinDay (LocalTime h now)"
    and same: "LocalTZA h now True
                 = LocalTZA h (MakeDate (MakeDay (getFullYear h now) (M - 1) D) 0) False"
  shows "\<exists>T'. parseKoreanDate h now text = Some (TimeValue T')
           \<and> new_Date h (getFullYear h now + 1) (M - 1) D = TimeValue T'
           \<and> getFullYear h T' = getFullYear h now + 1
           \<and> TimeWithinDay (LocalTime h T') = 0
           \<and> (if M = 2 \<and> D = 29 then getMonth h T' + 1 = 3 \<and> getDate h T' = 1
               else getMonth h T' + 1 = M \<and> getDate h T' = D)"
proof -
  let ?lt = "LocalTime h now"
  have m: "1 \<le> M" "M \<le> 12"
    using MonthFromTime_range [of ?lt] today(1) by (simp_all add: getMonth_def)
  have d: "1 \<le> D" "D \<le> DaysInMonth (getFullYear h now) M"
    using DateFromTime_range [of ?lt] today by (auto simp add: getMonth_def getDate_def getFullYear_def)
  obtain T T' where T:
    "new_Date h (getFullYear h now) (M - 1) D = TimeValue T"
    "LocalTime h T = MakeDate (MakeDay (getFullYear h now) (M - 1) D) 0"
    and T': "new_Date h (getFullYear h now + 1) (M - 1) D = TimeValue T'"
    "parseKoreanDate h now text = Some (TimeValue (if T < now then T' else T))"
    "getFullYear h T' = getFullYear h now + 1"
    "TimeWithinDay (LocalTime h T') = 0"
    "if M = 2 \<and> D = 29 then getMonth h T' + 1 = 3 \<and> getDate h T' = 1
     else getMonth h T' + 1 = M \<and> getDate h T' = D"
    using monthDay_core [OF assms(1-13) m d] by blast
  have "MakeDay (getFullYear h now) (M - 1) D = Day ?lt"
    using MakeDay_shift [of ?lt 0] today by (auto simp add: getFullYear_def getMonth_def getDate_def)
  then have "LocalTime h T = Day ?lt * msPerDay" using T(2) by (simp add: MakeDate_def)
  moreover have "?lt = Day ?lt * msPerDay + TimeWithinDay ?lt"
    using MakeDate_Day [of ?lt] by (simp add: MakeDate_def)
  ultimately have lt: "LocalTime h T < ?lt" using after by linarith
  have "99 < getFullYear h now" using assms(10) by simp
  then have "TimeClip (UTC h (MakeDate (MakeDay (getFullYear h now) (M - 1) D) 0)) = TimeValue T"
    using T(1) by (simp add: new_Date_plain)
  then have "T = UTC h (MakeDate (MakeDay (getFullYear h now) (M - 1) D) 0)"
    by (simp add: TimeClip_def split: if_splits)
  then have "T = LocalTime h T - LocalTZA h now True"
    using T(2) same by (simp add: UTC_def)
  then have "T < now" using lt by (simp add: LocalTime_def)
  then show ?thesis using T' by (intro exI [of _ T']) simp
qed

section \<open>Worked examples of \<open>parseKoreanDate\<close>\<close>

lemmas words_eval =
  w_today_def w_tomorrow_def w_day_after_tomorrow_def w_monday_def w_tuesday_def
  w_wednesday_def w_thursday_def w_friday_def w_saturday_def w_sunday_def
  c_il_def c_wol_def c_nyeon_def c_ju_def c_dwi_def c_hu_def c_si_def c_bun_def
  w_am_def w_pm_def

lemmas rx_eval =
  match_def cap_def cap_int_def parseInt_def rep_greedy_def rep_lazy_plus_def
  run_length_def isDigit_def isWhiteSpace_def isLineTerminator_def

lemmas host_eval = kst_def lower_ascii_def

lemma getFullYear_eval:
  "DayFromYear y \<le> Day (LocalTime h t) \<Longrightarrow> Day (LocalTime h t) < DayFromYear (y + 1)
   \<Longrightarrow> getFullYear h t = y"
  unfolding getFullYear_def by (rule YearFromTime_unique)

lemma new_Date_eval:
  "y < 0 \<or> 99 < y \<Longrightarrow> 0 \<le> m \<Longrightarrow> m \<le> 11 \<Longrightarrow>
   \<bar>UTC h ((DayFromYear y + month_start m (DaysInYear y - 365) + d - 1) * msPerDay)\<bar>
     \<le> 8640000000000000 \<Longrightarrow>
   new_Date h y m d
     = TimeValue (UTC h ((DayFromYear y + month_start m (DaysInYear y - 365) + d - 1) * msPerDay))"
  by (simp add: new_Date_plain MakeDay_def leap_cases MakeDate_def TimeClip_def)

text \<open>"2wol 29il" (29 February): the month-and-day pattern is the first to match.\<close>

lemma feb29_text:
  "\<not> str_includes (toLowerCase kst [0x32, 0xC6D4, 0x20, 0x32, 0x39, 0xC77C]) w_today"
  "\<not> str_includes (toLowerCase kst [0x32, 0xC6D4, 0x20, 0x32, 0x39, 0xC77C]) w_tomorrow"
  "\<not> str_includes (toLowerCase kst [0x32, 0xC6D4, 0x20, 0x32, 0x39, 0xC77C]) w_day_after_tomorrow"
  "\<forall>p\<in>set dayMap. \<not> str_includes (toLowerCase kst [0x32, 0xC6D4, 0x20, 0x32, 0x39, 0xC77C]) (fst p)"
  "match (toLowerCase kst [0x32, 0xC6D4, 0x20, 0x32, 0x39, 0xC77C]) rx_daysLater = None"
  "match (toLowerCase kst [0x32, 0xC6D4, 0x20, 0x32, 0x39, 0xC77C]) rx_weeksLater = None"
  "match (toLowerCase kst [0x32, 0xC6D4, 0x20, 0x32, 0x39, 0xC77C]) rx_monthDay
     = Some [(2, [0x32, 0x39]), (1, [0x32])]"
  "cap_int [(2, [0x32, 0x39]), (1, [0x32])] 1 = Some 2"
  "cap_int [(2, [0x32, 0x39]), (1, [0x32])] 2 = Some 29"
  by (simp_all add: host_eval dayMap_def words_eval rx_eval rx_daysLater_def rx_weeksLater_def
      rx_monthDay_def)


lemma nov3_text:
  "\<not> str_includes (toLowerCase kst [0x31, 0x31, 0xC6D4, 0x20, 0x33, 0xC77C]) w_today"
  "\<not> str_includes (toLowerCase kst [0x31, 0x31, 0xC6D4, 0x20, 0x33, 0xC77C]) w_tomorrow"
  "\<not> str_includes (toLowerCase kst [0x31, 0x31, 0xC6D4, 0x20, 0x33, 0xC77C]) w_day_after_tomorrow"
  "\<forall>p\<in>set dayMap. \<not> str_includes (toLowerCase kst [0x31, 0x31, 0xC6D4, 0x20, 0x33, 0xC77C]) (fst p)"
  "match (toLowerCase kst [0x31, 0x31, 0xC6D4, 0x20, 0x33, 0xC77C]) rx_daysLater = None"
  "match (toLowerCase kst [0x31, 0x31, 0xC6D4, 0x20, 0x33, 0xC77C]) rx_weeksLater = None"
  "match (toLowerCase kst [0x31, 0x31, 0xC6D4, 0x20, 0x33, 0xC77C]) rx_monthDay
     = Some [(2, [0x33]), (1, [0x31, 0x31])]"
  "cap_int [(2, [0x33]), (1, [0x31, 0x31])] 1 = Some 11"
  "cap_int [(2, [0x33]), (1, [0x31, 0x31])] 2 = Some 3"
  by (simp_all add: host_eval dayMap_def words_eval rx_eval rx_daysLater_def rx_weeksLater_def
      rx_monthDay_def)

lemma kst_zone: "LocalTime kst t = t + 32400000" "UTC kst t = t - 32400000"
  by (simp_all add: kst_def LocalTime_def UTC_def)

lemma kst_regular: "regular_at kst x"
  by (rule fixed_offset_regular [of kst 32400000]) (simp_all add: kst_def msPerDay_def)

lemma kst_offset: "LocalTZA kst t isUTC = 32400000"
  by (simp add: kst_def)

text \<open>The clocks of the examples, in Korea: 3 November 2026 10:00, 15 March 2024 12:00
  and 29 February 2024 12:00.\<close>

lemma year_of_clocks:
  "getFullYear kst 1793667600000 = 2026"
  "getFullYear kst 1710471600000 = 2024"
  "getFullYear kst 1709175600000 = 2024"
  by (rule getFullYear_eval; simp add: kst_zone DayFromYear_def Day_def msPerDay_def)+

lemma midnights:
  "new_Date kst 2026 6 1 = TimeValue 1782831600000"
  "new_Date kst 2027 6 1 = TimeValue 1814367600000"
  "new_Date kst 2026 10 3 = TimeValue 1793631600000"
  "new_Date kst 2027 10 3 = TimeValue 1825167600000"
  "new_Date kst 2024 1 29 = TimeValue 1709132400000"
  "new_Date kst 2025 1 29 = TimeValue 1740754800000"
  by (subst new_Date_eval;
      simp add: kst_zone DayFromYear_def DaysInYear_def month_start_def msPerDay_def)+


text \<open>
  "11wol 3il" asked on 3 November 2026, 10:00 in Korea: the answer is 3 November 2027,
  00:00.
\<close>

lemma nov3_clock:
  "getMonth kst 1793667600000 + 1 = 11" "getDate kst 1793667600000 = 3"
  "0 < TimeWithinDay (LocalTime kst 1793667600000)"
proof -
  have lt: "LocalTime kst 1793667600000 = 1793700000000" by (simp add: kst_zone)
  have y: "YearFromTime 1793700000000 = 2026"
    using year_of_clocks(1) by (simp add: getFullYear_def lt)
  show "getMonth kst 1793667600000 + 1 = 11" "getDate kst 1793667600000 = 3"
    "0 < TimeWithinDay (LocalTime kst 1793667600000)"
    by (simp_all add: getMonth_def getDate_def lt MonthFromTime_def DateFromTime_def
        DayWithinYear_def InLeapYear_def y Day_def msPerDay_def DayFromYear_def DaysInYear_def
        month_start_def TimeWithinDay_def)
qed

theorem parseKoreanDate_monthDay_today_witness:
  "parseKoreanDate kst 1793667600000 [0x31, 0x31, 0xC6D4, 0x20, 0x33, 0xC77C]
     = Some (TimeValue 1825167600000)"
  using parseKoreanDate_monthDay_today [where now = 1793667600000, OF nov3_text _ _ _ _ nov3_clock]
  by (simp add: year_of_clocks kst_zone kst_regular kst_offset msPerDay_def midnights)

text \<open>
  "2wol 29il" asked on 15 March 2024, 12:00 in Korea: 29 February 2024 has passed, and
  the answer is 1 March 2025, 00:00, not a 29 February.
\<close>

lemma mar1_2025:
  "getFullYear kst 1740754800000 = 2025"
  "getMonth kst 1740754800000 + 1 = 3"
  "getDate kst 1740754800000 = 1"
proof -
  have lt: "LocalTime kst 1740754800000 = 1740787200000" by (simp add: kst_zone)
  have y: "YearFromTime 1740787200000 = 2025"
    by (rule YearFromTime_unique) (simp_all add: DayFromYear_def Day_def msPerDay_def)
  show "getFullYear kst 1740754800000 = 2025"
    "getMonth kst 1740754800000 + 1 = 3" "getDate kst 1740754800000 = 1"
    by (simp_all add: getFullYear_def getMonth_def getDate_def lt MonthFromTime_def DateFromTime_def
        DayWithinYear_def InLeapYear_def y Day_def msPerDay_def DayFromYear_def DaysInYear_def
        month_start_def)
qed


text \<open>
  "2wol 29il" asked on 29 February 2024, 12:00 in Korea: the answer is 1 March 2025,
  00:00, not a 29 February.
\<close>

lemma feb29_clock:
  "getMonth kst 1709175600000 + 1 = 2" "getDate kst 1709175600000 = 29"
  "0 < TimeWithinDay (LocalTime kst 1709175600000)"
proof -
  have lt: "LocalTime kst 1709175600000 = 1709208000000" by (simp add: kst_zone)
  have y: "YearFromTime 1709208000000 = 2024"
    using year_of_clocks(3) by (simp add: getFullYear_def lt)
  show "getMonth kst 1709175600000 + 1 = 2" "getDate kst 1709175600000 = 29"
    "0 < TimeWithinDay (LocalTime kst 1709175600000)"
    by (simp_all add: getMonth_def getDate_def lt MonthFromTime_def DateFromTime_def
        DayWithinYear_def InLeapYear_def y Day_def msPerDay_def DayFromYear_def DaysInYear_def
        month_start_def TimeWithinDay_def)
qed

theorem parseKoreanDate_monthDay_today_counterexample:
  "getMonth kst 1709175600000 + 1 = 2
   \<and> getDate kst 1709175600000 = 29
   \<and> 0 < TimeWithinDay (LocalTime kst 1709175600000)
   \<and> parseKoreanDate kst 1709175600000 [0x32, 0xC6D4, 0x20, 0x32, 0x39, 0xC77C]
       = Some (TimeValue 1740754800000)
   \<and> getFullYear kst 1740754800000 = 2025
   \<and> getMonth kst 1740754800000 + 1 = 3
   \<and> getDate kst 1740754800000 = 1"
  using monthDay_core [where now = 1709175600000, OF feb29_text]
  by (simp add: year_of_clocks kst_regular msPerDay_def DaysInMonth_def DaysInYear_def midnights
      mar1_2025 feb29_clock)

section \<open>Properties of the dispatcher\<close>


text \<open>A command that is neither an \<open>add\<close> nor a \<open>list\<close> reaches no store.\<close>

lemma executeCommand_falls_through:
  "action cmd \<noteq> Add \<Longrightarrow> action cmd \<noteq> List \<Longrightarrow> executeCommand b h now cmd = ([], [])"
  by (simp add: executeCommand_def executeCommand_try_def)

text \<open>
  Claim C9.  For a command whose action is \<open>delete\<close> or \<open>update\<close>, \<open>executeCommand\<close> calls
  no store and returns the empty string.  For a message parsed to such a command with
  an entity, \<open>sendMessage\<close> then makes one call, the Gemini chat with the original
  message, and returns to its caller: the chat's reply, with no command attached, when
  the chat answers.
\<close>

theorem delete_update_fall_back_to_chat:
  "(action cmd = Delete \<or> action cmd = Update \<longrightarrow> executeCommand b h now' cmd = ([], []))
   \<and> ((action (parseCommand h now message) = Delete
        \<or> action (parseCommand h now message) = Update)
       \<and> entity (parseCommand h now message) \<noteq> None \<longrightarrow>
         snd (sendMessage b h now now' message) = [Converse message]
         \<and> (\<exists>r. fst (sendMessage b h now now' message) = Inr r)
         \<and> (\<forall>reply. converse b message = Inr reply \<longrightarrow>
               fst (sendMessage b h now now' message)
                 = Inr \<lparr>response = reply, command = None\<rparr>))"
proof -
  have a: "action cmd = Delete \<or> action cmd = Update \<longrightarrow> executeCommand b h now' cmd = ([], [])"
    by (auto simp add: executeCommand_falls_through)
  have b: "(action (parseCommand h now message) = Delete
        \<or> action (parseCommand h now message) = Update)
       \<and> entity (parseCommand h now message) \<noteq> None \<longrightarrow>
         snd (sendMessage b h now now' message) = [Converse message]
         \<and> (\<exists>r. fst (sendMessage b h now now' message) = Inr r)
         \<and> (\<forall>reply. converse b message = Inr reply \<longrightarrow>
               fst (sendMessage b h now now' message)
                 = Inr \<lparr>response = reply, command = None\<rparr>)"
  proof (intro impI)
    assume p: "(action (parseCommand h now message) = Delete
        \<or> action (parseCommand h now message) = Update)
       \<and> entity (parseCommand h now message) \<noteq> None"
    then have e: "executeCommand b h now' (parseCommand h now message) = ([], [])"
      by (auto simp add: executeCommand_falls_through)
    have t: "sendMessage_try b h now now' message =
          (case converse b message of
             Inl e \<Rightarrow> (Inl e, [Converse message])
           | Inr text \<Rightarrow> (Inr \<lparr>response = text, command = None\<rparr>, [Converse message]))"
      using p e by (auto simp add: sendMessage_try_def Let_def split: sum.splits)
    show "snd (sendMessage b h now now' message) = [Converse message]
         \<and> (\<exists>r. fst (sendMessage b h now now' message) = Inr r)
         \<and> (\<forall>reply. converse b message = Inr reply \<longrightarrow>
               fst (sendMessage b h now now' message)
                 = Inr \<lparr>response = reply, command = None\<rparr>)"
      by (cases "converse b message") (simp_all add: sendMessage_def t)
  qed
  show ?thesis using a b by blast
qed

text \<open>
  A backend for the worked examples: every create succeeds, both tables are empty and
  the chat answers "algesseumnida" (understood).
\<close>

definition calm_backend :: backend where
  "calm_backend =
     \<lparr>createEvent = (\<lambda>ev. Inr None), createTodo = (\<lambda>td. Inr None),
      createMemo = (\<lambda>mm. Inr None), select_events = Inr (Some [], None),
      select_todos = Inr (Some [], None),
      converse = (\<lambda>m. Inr [0xC54C, 0xACA0, 0xC2B5, 0xB2C8, 0xB2E4])\<rparr>"

lemmas keywords_eval =
  includes_any_def addKeywords_def deleteKeywords_def listKeywords_def eventWords_def
  todoWords_def memoWords_def

text \<open>"iljeong sakjehaejwo" (delete the event).\<close>

lemma delete_event_parse:
  "action (parseCommand kst 0 [0xC77C, 0xC815, 0x20, 0xC0AD, 0xC81C, 0xD574, 0xC918]) = Delete"
  "entity (parseCommand kst 0 [0xC77C, 0xC815, 0x20, 0xC0AD, 0xC81C, 0xD574, 0xC918]) = Some Event"
  by (simp_all add: parseCommand_action_entity Let_def keywords_eval kst_def lower_ascii_def)

theorem delete_update_fall_back_to_chat_witness:
  "executeCommand calm_backend kst 0
     (parseCommand kst 0 [0xC77C, 0xC815, 0x20, 0xC0AD, 0xC81C, 0xD574, 0xC918]) = ([], [])
   \<and> sendMessage calm_backend kst 0 0 [0xC77C, 0xC815, 0x20, 0xC0AD, 0xC81C, 0xD574, 0xC918]
       = (Inr \<lparr>response = [0xC54C, 0xACA0, 0xC2B5, 0xB2C8, 0xB2E4], command = None\<rparr>,
          [Converse [0xC77C, 0xC815, 0x20, 0xC0AD, 0xC81C, 0xD574, 0xC918]])"
proof -
  have c: "converse calm_backend [0xC77C, 0xC815, 0x20, 0xC0AD, 0xC81C, 0xD574, 0xC918]
             = Inr [0xC54C, 0xACA0, 0xC2B5, 0xB2C8, 0xB2E4]"
    by (simp add: calm_backend_def)
  show ?thesis
    using delete_update_fall_back_to_chat
            [of "parseCommand kst 0 [0xC77C, 0xC815, 0x20, 0xC0AD, 0xC81C, 0xD574, 0xC918]"
                calm_backend kst 0 0 "[0xC77C, 0xC815, 0x20, 0xC0AD, 0xC81C, 0xD574, 0xC918]"]
    by (simp add: delete_event_parse c prod_eq_iff)
qed

text \<open>
  Claim C10.  \<open>parseCommand\<close> returns a command for every message (it has no failing
  branch), and the command's \<open>originalMessage\<close> is the message as given.
  \<open>parseKoreanDate\<close> returns null when none of its words and patterns is found in the
  lower-cased text, and \<open>parseTime\<close> returns null when none of its three patterns matches.
\<close>

theorem parse_no_match_is_null:
  "originalMessage (parseCommand h now message) = message
   \<and> (\<not> str_includes (toLowerCase h text) w_today
       \<and> \<not> str_includes (toLowerCase h text) w_tomorrow
       \<and> \<not> str_includes (toLowerCase h text) w_day_after_tomorrow
       \<and> (\<forall>p\<in>set dayMap. \<not> str_includes (toLowerCase h text) (fst p))
       \<and> match (toLowerCase h text) rx_daysLater = None
       \<and> match (toLowerCase h text) rx_weeksLater = None
       \<and> match (toLowerCase h text) rx_monthDay = None
       \<and> match (toLowerCase h text) rx_fullDate = None
       \<longrightarrow> parseKoreanDate h now text = None)
   \<and> (match text rx_ampm = None \<and> match text rx_time = None \<and> match text rx_colon = None
       \<longrightarrow> parseTime text = None)"
proof -
  have d: "(\<forall>p\<in>set dayMap. \<not> str_includes (toLowerCase h text) (fst p)) \<Longrightarrow>
           find (\<lambda>(day, f). str_includes (toLowerCase h text) day) dayMap = None"
    by (auto simp add: find_None_iff)
  show ?thesis
    using d by (auto simp add: parseCommand_originalMessage parseKoreanDate_def Let_def parseTime_def)
qed

text \<open>"hello" holds no date and no time.\<close>

theorem parse_no_match_is_null_witness:
  "originalMessage (parseCommand kst 0 [0x68, 0x65, 0x6C, 0x6C, 0x6F]) = [0x68, 0x65, 0x6C, 0x6C, 0x6F]
   \<and> parseKoreanDate kst 0 [0x68, 0x65, 0x6C, 0x6C, 0x6F] = None
   \<and> parseTime [0x68, 0x65, 0x6C, 0x6C, 0x6F] = None"
  using parse_no_match_is_null [of kst 0 "[0x68, 0x65, 0x6C, 0x6C, 0x6F]" "[0x68, 0x65, 0x6C, 0x6C, 0x6F]"]
  by (simp add: host_eval dayMap_def words_eval rx_eval rx_daysLater_def rx_weeksLater_def
      rx_monthDay_def rx_fullDate_def rx_ampm_def rx_time_def rx_colon_def)





definition list_todo_command :: ParsedCommand where
  "list_todo_command =
     \<lparr>action = List, entity = Some Todo, title = None, date = None, time = None,
      content = None, originalMessage = []\<rparr>"



text \<open>\<open>sendMessage\<close> returns to its caller whatever the collaborators do.\<close>

lemma sendMessage_returns: "\<exists>r. fst (sendMessage b h now now' message) = Inr r"
  by (simp add: sendMessage_def split: prod.split sum.split)

text \<open>Whatever is thrown inside \<open>executeCommand\<close>, the reply is the failure message.\<close>

lemma executeCommand_catches:
  "fst (executeCommand_try b h now cmd) = Inl e \<Longrightarrow>
   fst (executeCommand b h now cmd) = msg_command_failed"
  by (auto simp add: executeCommand_def split: prod.split sum.split)

text \<open>A create call that throws or yields an error makes the \<open>try\<close> block throw.\<close>

lemma create_failure_is_caught:
  assumes "action cmd = Add" and "title cmd = Some ttl" and "ttl \<noteq> []"
    and "date cmd = Some (TimeValue t)"
    and "\<forall>x. createEvent b x \<noteq> Inr None" and "\<forall>x. createTodo b x \<noteq> Inr None"
    and "\<forall>x. createMemo b x \<noteq> Inr None"
    and "entity cmd \<noteq> None"
  shows "fst (executeCommand b h now cmd) = msg_command_failed"
proof -
  from assms(8) obtain en where en: "entity cmd = Some en" by auto
  show ?thesis
  proof (cases en)
    case Event
    then show ?thesis using assms(1-5) en
      by (auto simp add: executeCommand_def executeCommand_try_def truthy_def Let_def
          split: sum.split option.split)
  next
    case Todo
    then show ?thesis using assms(1-4,6) en
      by (auto simp add: executeCommand_def executeCommand_try_def truthy_def Let_def
          split: sum.split option.split)
  next
    case Memo
    then show ?thesis using assms(1-3,7) en
      by (auto simp add: executeCommand_def executeCommand_try_def truthy_def Let_def
          split: sum.split option.split)
  qed
qed

text \<open>A query that throws is caught as well.\<close>

lemma list_throw_is_caught:
  assumes "action cmd = List"
    and "entity cmd = Some Event \<and> select_events b = Inl e
         \<or> entity cmd = Some Todo \<and> select_todos b = Inl e"
  shows "fst (executeCommand b h now cmd) = msg_command_failed"
  using assms
  by (auto simp add: executeCommand_def executeCommand_try_def getEvents_def getTodos_def)

text \<open>
  Claim C2 fails on the code.  When the query behind \<open>list\<close> \<open>todo\<close> does not throw but
  yields an error ("connection refused", with no data), \<open>executeCommand\<close> does not
  return the failure message: it reports that no task is registered.
\<close>

theorem list_error_is_not_reported:
  "executeCommand
     (calm_backend\<lparr>select_todos :=
        Inr (None, Some (JsError (Some [0x63, 0x6F, 0x6E, 0x6E, 0x65, 0x63, 0x74, 0x69, 0x6F, 0x6E,
                                        0x20, 0x72, 0x65, 0x66, 0x75, 0x73, 0x65, 0x64])))\<rparr>)
     kst 0 list_todo_command = (msg_no_todos, [GetTodos])
   \<and> msg_no_todos \<noteq> msg_command_failed"
  by (simp add: executeCommand_def executeCommand_try_def getTodos_def list_todo_command_def
      msg_no_todos_def msg_command_failed_def)

declare replace_all_empty.simps [simp del]

section \<open>The title of a command\<close>

lemma parseCommand_title:
  "title (parseCommand h now message) =
     (if action (parseCommand h now message) = Chat then None
      else case match message rx_quoted of
             Some quotedMatch \<Rightarrow>
               (case cap quotedMatch 1 of Some t \<Rightarrow> Some t | None \<Rightarrow> cap quotedMatch 2)
           | None \<Rightarrow>
               if length (stripTitle message) > 2 then Some (stripTitle message) else None)"
  by (simp add: parseCommand_def Let_def split: option.split prod.split)

text \<open>
  The part of claim C7 that holds: for a message without a quoted span, a command
  with an entity carries the stripped message as its title if and only if that has
  three code units or more.  (A message classified as \<open>chat\<close> carries no title.)
\<close>

lemma title_length_threshold:
  assumes "match message rx_quoted = None"
  shows "title (parseCommand h now message) =
           (if action (parseCommand h now message) \<noteq> Chat \<and> 3 \<le> length (stripTitle message)
            then Some (stripTitle message) else None)"
proof -
  have "(2 < length (stripTitle message)) = (3 \<le> length (stripTitle message))" by linarith
  then show ?thesis
    using assms by (simp add: parseCommand_title)
qed

lemmas strip_eval =
  replace_all_empty.simps rx_strip_dateWords_def rx_strip_later_def rx_strip_monthDay_def
  rx_strip_time_def rx_strip_colon_def rx_strip_keywords_def stripWords_def trim_def

text \<open>
  "geumyoilkkaji bogoseo jakseong hal il chugahaejwo" (add the task of writing the
  report by Friday): the title is "kkaji bogoseo jakseong".
\<close>

lemma friday_report:
  "match [0xAE08, 0xC694, 0xC77C, 0xAE4C, 0xC9C0, 0x20, 0xBCF4, 0xACE0, 0xC11C, 0x20, 0xC791,
          0xC131, 0x20, 0xD560, 0x20, 0xC77C, 0x20, 0xCD94, 0xAC00, 0xD574, 0xC918] rx_quoted = None"
  "action (parseCommand kst 0
     [0xAE08, 0xC694, 0xC77C, 0xAE4C, 0xC9C0, 0x20, 0xBCF4, 0xACE0, 0xC11C, 0x20, 0xC791,
      0xC131, 0x20, 0xD560, 0x20, 0xC77C, 0x20, 0xCD94, 0xAC00, 0xD574, 0xC918]) = Add"
  "stripTitle [0xAE08, 0xC694, 0xC77C, 0xAE4C, 0xC9C0, 0x20, 0xBCF4, 0xACE0, 0xC11C, 0x20, 0xC791,
      0xC131, 0x20, 0xD560, 0x20, 0xC77C, 0x20, 0xCD94, 0xAC00, 0xD574, 0xC918]
     = [0xAE4C, 0xC9C0, 0x20, 0xBCF4, 0xACE0, 0xC11C, 0x20, 0xC791, 0xC131]"
proof -
  show "match [0xAE08, 0xC694, 0xC77C, 0xAE4C, 0xC9C0, 0x20, 0xBCF4, 0xACE0, 0xC11C, 0x20, 0xC791,
          0xC131, 0x20, 0xD560, 0x20, 0xC77C, 0x20, 0xCD94, 0xAC00, 0xD574, 0xC918] rx_quoted = None"
    by (simp add: rx_quoted_def rx_eval)
  show "action (parseCommand kst 0
     [0xAE08, 0xC694, 0xC77C, 0xAE4C, 0xC9C0, 0x20, 0xBCF4, 0xACE0, 0xC11C, 0x20, 0xC791,
      0xC131, 0x20, 0xD560, 0x20, 0xC77C, 0x20, 0xCD94, 0xAC00, 0xD574, 0xC918]) = Add"
    by (simp add: parseCommand_action_entity Let_def keywords_eval kst_def lower_ascii_def)
  show "stripTitle [0xAE08, 0xC694, 0xC77C, 0xAE4C, 0xC9C0, 0x20, 0xBCF4, 0xACE0, 0xC11C, 0x20, 0xC791,
      0xC131, 0x20, 0xD560, 0x20, 0xC77C, 0x20, 0xCD94, 0xAC00, 0xD574, 0xC918]
     = [0xAE4C, 0xC9C0, 0x20, 0xBCF4, 0xACE0, 0xC11C, 0x20, 0xC791, 0xC131]"
    unfolding stripTitle_def Let_def by (simp add: strip_eval words_eval rx_eval)
qed

lemma title_of_friday_report:
  "title (parseCommand kst 0
     [0xAE08, 0xC694, 0xC77C, 0xAE4C, 0xC9C0, 0x20, 0xBCF4, 0xACE0, 0xC11C, 0x20, 0xC791,
      0xC131, 0x20, 0xD560, 0x20, 0xC77C, 0x20, 0xCD94, 0xAC00, 0xD574, 0xC918])
   = Some [0xAE4C, 0xC9C0, 0x20, 0xBCF4, 0xACE0, 0xC11C, 0x20, 0xC791, 0xC131]"
  using title_length_threshold [OF friday_report(1), of kst 0]
  unfolding friday_report(2,3) by simp

text \<open>"eopmu bogoseo chuga" (add the work report).\<close>

lemma work_report:
  "match [0xC5C5, 0xBB34, 0x20, 0xBCF4, 0xACE0, 0xC11C, 0x20, 0xCD94, 0xAC00] rx_quoted = None"
  "action (parseCommand kst 0 [0xC5C5, 0xBB34, 0x20, 0xBCF4, 0xACE0, 0xC11C, 0x20, 0xCD94, 0xAC00])
     = Add"
  "entity (parseCommand kst 0 [0xC5C5, 0xBB34, 0x20, 0xBCF4, 0xACE0, 0xC11C, 0x20, 0xCD94, 0xAC00])
     = Some Todo"
  "stripTitle [0xC5C5, 0xBB34, 0x20, 0xBCF4, 0xACE0, 0xC11C, 0x20, 0xCD94, 0xAC00]
     = [0xC5C5, 0xBB34, 0x20, 0xBCF4, 0xACE0, 0xC11C]"
proof -
  show "match [0xC5C5, 0xBB34, 0x20, 0xBCF4, 0xACE0, 0xC11C, 0x20, 0xCD94, 0xAC00] rx_quoted = None"
    by (simp add: rx_quoted_def rx_eval)
  show "action (parseCommand kst 0 [0xC5C5, 0xBB34, 0x20, 0xBCF4, 0xACE0, 0xC11C, 0x20, 0xCD94, 0xAC00])
     = Add"
    "entity (parseCommand kst 0 [0xC5C5, 0xBB34, 0x20, 0xBCF4, 0xACE0, 0xC11C, 0x20, 0xCD94, 0xAC00])
     = Some Todo"
    by (simp_all add: parseCommand_action_entity Let_def keywords_eval kst_def lower_ascii_def)
  show "stripTitle [0xC5C5, 0xBB34, 0x20, 0xBCF4, 0xACE0, 0xC11C, 0x20, 0xCD94, 0xAC00]
     = [0xC5C5, 0xBB34, 0x20, 0xBCF4, 0xACE0, 0xC11C]"
    unfolding stripTitle_def Let_def by (simp add: strip_eval words_eval rx_eval)
qed

text \<open>
  Claim C7 fails on the code.  The last deletion stands in the source under the
  comment "remove the action and entity keywords", but its word list leaves out
  "eopmu" (work), one of the words by which a task is recognised.  So
  "eopmu bogoseo chuga", which has no quoted span and is parsed as a task by that very
  word, gets the title "eopmu bogoseo": the stripped message still holds an entity
  keyword.
\<close>

theorem title_keeps_entity_keyword:
  "match [0xC5C5, 0xBB34, 0x20, 0xBCF4, 0xACE0, 0xC11C, 0x20, 0xCD94, 0xAC00] rx_quoted = None
   \<and> entity (parseCommand kst 0 [0xC5C5, 0xBB34, 0x20, 0xBCF4, 0xACE0, 0xC11C, 0x20, 0xCD94, 0xAC00])
       = Some Todo
   \<and> title (parseCommand kst 0 [0xC5C5, 0xBB34, 0x20, 0xBCF4, 0xACE0, 0xC11C, 0x20, 0xCD94, 0xAC00])
       = Some [0xC5C5, 0xBB34, 0x20, 0xBCF4, 0xACE0, 0xC11C]
   \<and> [0xC5C5, 0xBB34] \<in> set todoWords
   \<and> str_includes [0xC5C5, 0xBB34, 0x20, 0xBCF4, 0xACE0, 0xC11C] [0xC5C5, 0xBB34]"
  by (simp add: parseCommand_title work_report todoWords_def)

text \<open>
  The date deletions, under the comment "remove the words of dates", miss dates that
  \<open>parseKoreanDate\<close> recognises: in "7 wol 1 il hoeui chuga" (add a meeting on 1 July,
  with spaces before \<open>wol\<close> and \<open>il\<close>) the month-and-day pattern finds month 7 and day
  1, and the title is "7 wol 1 il".
\<close>

lemma title_keeps_recognised_date:
  "match [0x37, 0x20, 0xC6D4, 0x20, 0x31, 0x20, 0xC77C, 0x20, 0xD68C, 0xC758, 0x20, 0xCD94, 0xAC00]
     rx_monthDay = Some [(2, [0x31]), (1, [0x37])]"
  "title (parseCommand kst 0
     [0x37, 0x20, 0xC6D4, 0x20, 0x31, 0x20, 0xC77C, 0x20, 0xD68C, 0xC758, 0x20, 0xCD94, 0xAC00])
   = Some [0x37, 0x20, 0xC6D4, 0x20, 0x31, 0x20, 0xC77C]"
proof -
  let ?m = "[0x37, 0x20, 0xC6D4, 0x20, 0x31, 0x20, 0xC77C, 0x20, 0xD68C, 0xC758, 0x20, 0xCD94, 0xAC00]
            :: ustring"
  show "match ?m rx_monthDay = Some [(2, [0x31]), (1, [0x37])]"
    by (simp add: rx_monthDay_def words_eval rx_eval)
  have q: "match ?m rx_quoted = None" by (simp add: rx_quoted_def rx_eval)
  have a: "action (parseCommand kst 0 ?m) = Add"
    by (simp add: parseCommand_action_entity Let_def keywords_eval kst_def lower_ascii_def)
  have t: "stripTitle ?m = [0x37, 0x20, 0xC6D4, 0x20, 0x31, 0x20, 0xC77C]"
    unfolding stripTitle_def Let_def by (simp add: strip_eval words_eval rx_eval)
  show "title (parseCommand kst 0 ?m) = Some [0x37, 0x20, 0xC6D4, 0x20, 0x31, 0x20, 0xC77C]"
    using title_length_threshold [OF q, of kst 0] unfolding a t by simp
qed

section \<open>The full date\<close>

text \<open>"2025nyeon 1wol 15il" (15 January 2025).\<close>

lemma jan15_text:
  "\<not> str_includes (toLowerCase kst [0x32, 0x30, 0x32, 0x35, 0xB144, 0x20, 0x31, 0xC6D4, 0x20, 0x31, 0x35, 0xC77C]) w_today"
  "\<not> str_includes (toLowerCase kst [0x32, 0x30, 0x32, 0x35, 0xB144, 0x20, 0x31, 0xC6D4, 0x20, 0x31, 0x35, 0xC77C]) w_tomorrow"
  "\<not> str_includes (toLowerCase kst [0x32, 0x30, 0x32, 0x35, 0xB144, 0x20, 0x31, 0xC6D4, 0x20, 0x31, 0x35, 0xC77C]) w_day_after_tomorrow"
  "\<forall>p\<in>set dayMap. \<not> str_includes (toLowerCase kst [0x32, 0x30, 0x32, 0x35, 0xB144, 0x20, 0x31, 0xC6D4, 0x20, 0x31, 0x35, 0xC77C]) (fst p)"
  "match (toLowerCase kst [0x32, 0x30, 0x32, 0x35, 0xB144, 0x20, 0x31, 0xC6D4, 0x20, 0x31, 0x35, 0xC77C]) rx_daysLater = None"
  "match (toLowerCase kst [0x32, 0x30, 0x32, 0x35, 0xB144, 0x20, 0x31, 0xC6D4, 0x20, 0x31, 0x35, 0xC77C]) rx_weeksLater = None"
  "match (toLowerCase kst [0x32, 0x30, 0x32, 0x35, 0xB144, 0x20, 0x31, 0xC6D4, 0x20, 0x31, 0x35, 0xC77C]) rx_monthDay
     = Some [(2, [0x31, 0x35]), (1, [0x31])]"
  "cap_int [(2, [0x31, 0x35]), (1, [0x31])] 1 = Some 1"
  "cap_int [(2, [0x31, 0x35]), (1, [0x31])] 2 = Some 15"
  by (simp_all add: host_eval dayMap_def words_eval rx_eval rx_daysLater_def rx_weeksLater_def
      rx_monthDay_def)

lemma jan15_full:
  "match (toLowerCase kst [0x32, 0x30, 0x32, 0x35, 0xB144, 0x20, 0x31, 0xC6D4, 0x20, 0x31, 0x35, 0xC77C]) rx_fullDate
     = Some [(3, [0x31, 0x35]), (2, [0x31]), (1, [0x32, 0x30, 0x32, 0x35])]"
  "cap_int [(3, [0x31, 0x35]), (2, [0x31]), (1, [0x32, 0x30, 0x32, 0x35])] 1 = Some 2025"
  by (simp_all add: host_eval words_eval rx_eval rx_fullDate_def)

lemma jan15_midnights:
  "new_Date kst 2026 0 15 = TimeValue 1768402800000"
  "new_Date kst 2027 0 15 = TimeValue 1799938800000"
  by (subst new_Date_eval;
      simp add: kst_zone DayFromYear_def DaysInYear_def month_start_def msPerDay_def)+

text \<open>
  Claim C1 fails on the code.  "2025nyeon 1wol 15il" is a full date, year 2025, and
  the full-date pattern matches it; but the month-and-day pattern is tried first and
  matches "1wol 15il" inside it, so the year is not read: asked on 3 November 2026,
  10:00 in Korea, the answer is 15 January 2027, the current year's date rolled over.
\<close>

theorem full_date_year_is_ignored:
  "match (toLowerCase kst [0x32, 0x30, 0x32, 0x35, 0xB144, 0x20, 0x31, 0xC6D4, 0x20, 0x31, 0x35, 0xC77C]) rx_fullDate
     = Some [(3, [0x31, 0x35]), (2, [0x31]), (1, [0x32, 0x30, 0x32, 0x35])]
   \<and> cap_int [(3, [0x31, 0x35]), (2, [0x31]), (1, [0x32, 0x30, 0x32, 0x35])] 1 = Some 2025
   \<and> parseKoreanDate kst 1793667600000
        [0x32, 0x30, 0x32, 0x35, 0xB144, 0x20, 0x31, 0xC6D4, 0x20, 0x31, 0x35, 0xC77C]
       = Some (TimeValue 1799938800000)
   \<and> getFullYear kst 1799938800000 = 2027
   \<and> getMonth kst 1799938800000 + 1 = 1
   \<and> getDate kst 1799938800000 = 15"
proof -
  have "parseKoreanDate kst 1793667600000
          [0x32, 0x30, 0x32, 0x35, 0xB144, 0x20, 0x31, 0xC6D4, 0x20, 0x31, 0x35, 0xC77C]
         = Some (TimeValue 1799938800000)
        \<and> getFullYear kst 1799938800000 = 2027
        \<and> getMonth kst 1799938800000 + 1 = 1
        \<and> getDate kst 1799938800000 = 15"
    using monthDay_core [where now = 1793667600000, OF jan15_text]
    by (simp add: year_of_clocks kst_zone kst_regular kst_offset msPerDay_def DaysInMonth_def jan15_midnights)
  then show ?thesis using jan15_full by blast
qed

section \<open>The full-date branch is never reached\<close>

text \<open>The remainders a pattern can leave, whatever the captures.\<close>

definition rems :: "rx \<Rightarrow> ustring \<Rightarrow> ustring list" where
  "rems r s = map fst (rx_match r (s, []))"

lemma rx_match_remainders:
  "map fst (rx_match r (s, c)) = map fst (rx_match r (s, c'))"
proof (induction r arbitrary: s c c')
  case (Cat r1 r2)
  have g: "\<And>xs. map fst (concat (map (rx_match r2) xs))
             = concat (map (\<lambda>s'. map fst (rx_match r2 (s', []))) (map fst xs))"
  proof -
    fix xs :: "(ustring \<times> captures) list"
    show "map fst (concat (map (rx_match r2) xs))
             = concat (map (\<lambda>s'. map fst (rx_match r2 (s', []))) (map fst xs))"
    proof (induction xs)
      case Nil
      show ?case by simp
    next
      case (Cons x xs)
      obtain s' c1 where x: "x = (s', c1)" by (cases x)
      show ?case using Cons Cat.IH(2) [of s' c1 "[]"] by (simp add: x)
    qed
  qed
  show ?case using Cat.IH(1) [of s c c'] by (simp add: g)
next
  case (Group n r)
  show ?case using Group.IH [of s c c'] by (simp add: comp_def case_prod_beta)
next
  case (Alt r1 r2)
  show ?case using Alt.IH(1) [of s c c'] Alt.IH(2) [of s c c'] by simp
next
  case (Opt r)
  show ?case using Opt.IH [of s c c'] by simp
qed (auto split: list.split)

lemma rems_Cat: "rems (Cat r1 r2) s = concat (map (rems r2) (rems r1 s))"
proof -
  have "\<And>xs. map fst (concat (map (rx_match r2) xs))
             = concat (map (rems r2) (map fst xs))"
  proof -
    fix xs :: "(ustring \<times> captures) list"
    show "map fst (concat (map (rx_match r2) xs)) = concat (map (rems r2) (map fst xs))"
    proof (induction xs)
      case Nil
      show ?case by simp
    next
      case (Cons x xs)
      obtain s' c1 where x: "x = (s', c1)" by (cases x)
      show ?case using Cons rx_match_remainders [of r2 s' c1 "[]"] by (simp add: x rems_def)
    qed
  qed
  then show ?thesis by (simp add: rems_def)
qed

lemma rems_Group: "rems (Group n r) s = rems r s"
  by (simp add: rems_def comp_def case_prod_beta)

lemma set_rems_Cat: "set (rems (Cat r1 r2) s) = (\<Union>m\<in>set (rems r1 s). set (rems r2 m))"
  by (simp add: rems_Cat)

lemma set_rems_Group: "set (rems (Group n r) s) = set (rems r s)"
  by (simp add: rems_Group)

lemma rems_Atom: "r' \<in> set (rems (Atom a) s) \<Longrightarrow> \<exists>x. s = x # r'"
  by (auto simp add: rems_def split: list.splits if_splits)

lemma rems_rep_greedy: "r' \<in> set (rems (Rep a lo hi) s) \<Longrightarrow> \<exists>k. r' = drop k s"
  by (auto simp add: rems_def rep_greedy_def Let_def comp_def)

text \<open>A pattern matches somewhere in a string exactly when it matches at the head of one
  of its suffixes.\<close>

lemma rx_exec_None: "rx_exec r pre s = None \<longleftrightarrow> (\<forall>k \<le> length s. rems r (drop k s) = [])"
proof (induction s arbitrary: pre)
  case Nil
  show ?case by (simp add: rems_def split: list.split)
next
  case (Cons x xs)
  have "(\<forall>k \<le> length (x # xs). rems r (drop k (x # xs)) = [])
        \<longleftrightarrow> rems r (x # xs) = [] \<and> (\<forall>k \<le> length xs. rems r (drop k xs) = [])"
  proof
    assume a: "\<forall>k \<le> length (x # xs). rems r (drop k (x # xs)) = []"
    have "rems r (x # xs) = []" using a [rule_format, of 0] by simp
    moreover have "\<forall>k \<le> length xs. rems r (drop k xs) = []"
    proof (intro allI impI)
      fix k assume "k \<le> length xs"
      then show "rems r (drop k xs) = []" using a [rule_format, of "Suc k"] by simp
    qed
    ultimately show "rems r (x # xs) = [] \<and> (\<forall>k \<le> length xs. rems r (drop k xs) = [])" by simp
  next
    assume b: "rems r (x # xs) = [] \<and> (\<forall>k \<le> length xs. rems r (drop k xs) = [])"
    show "\<forall>k \<le> length (x # xs). rems r (drop k (x # xs)) = []"
    proof (intro allI impI)
      fix k assume k: "k \<le> length (x # xs)"
      show "rems r (drop k (x # xs)) = []"
      proof (cases k)
        case 0
        then show ?thesis using b by simp
      next
        case (Suc j)
        then show ?thesis using b k by simp
      qed
    qed
  qed
  then show ?case using Cons [of "pre @ [x]"] by (simp add: rems_def split: list.split)
qed

lemma match_None: "match s r = None \<longleftrightarrow> (\<forall>k \<le> length s. rems r (drop k s) = [])"
  by (simp add: match_def rx_exec_None)

text \<open>The full-date pattern is a four-digit year, \<open>nyeon\<close> and then the month-and-day
  pattern (up to the numbers of the groups).\<close>

lemma rems_fullDate:
  "set (rems rx_fullDate s) =
     (\<Union>s1\<in>set (rems (Rep Digit 4 (Some 4)) s).
      \<Union>s2\<in>set (rems (Star Space) s1).
      \<Union>s3\<in>set (rems (Atom (Lit c_nyeon)) s2).
      \<Union>s4\<in>set (rems (Star Space) s3). set (rems rx_monthDay s4))"
  by (simp add: rx_fullDate_def rx_monthDay_def set_rems_Cat set_rems_Group)

lemma full_date_implies_month_day:
  assumes "match s rx_monthDay = None"
  shows "match s rx_fullDate = None"
proof -
  have md: "\<And>k. rems rx_monthDay (drop k s) = []"
  proof -
    fix k
    show "rems rx_monthDay (drop k s) = []"
    proof (cases "k \<le> length s")
      case True
      then show ?thesis using assms by (simp add: match_None)
    next
      case False
      then have "drop k s = drop (length s) s" by simp
      then show ?thesis using assms [unfolded match_None, rule_format, of "length s"] by simp
    qed
  qed
  have "\<And>j. rems rx_fullDate (drop j s) = []"
  proof -
    fix j
    show "rems rx_fullDate (drop j s) = []"
    proof (rule ccontr)
      assume "rems rx_fullDate (drop j s) \<noteq> []"
      then have "set (rems rx_fullDate (drop j s)) \<noteq> {}" by simp
      then obtain s4 s3 s2 s1 where
        s1: "s1 \<in> set (rems (Rep Digit 4 (Some 4)) (drop j s))"
        and s2: "s2 \<in> set (rems (Star Space) s1)"
        and s3: "s3 \<in> set (rems (Atom (Lit c_nyeon)) s2)"
        and s4: "s4 \<in> set (rems (Star Space) s3)"
        and ne: "rems rx_monthDay s4 \<noteq> []"
        unfolding rems_fullDate by auto
      obtain k1 where "s1 = drop k1 (drop j s)" using rems_rep_greedy [OF s1] by blast
      moreover obtain k2 where "s2 = drop k2 s1" using rems_rep_greedy [OF s2] by blast
      moreover obtain x where "s2 = x # s3" using rems_Atom [OF s3] by blast
      then have "s3 = drop 1 s2" by simp
      moreover obtain k4 where "s4 = drop k4 s3" using rems_rep_greedy [OF s4] by blast
      ultimately have "s4 = drop (k4 + (1 + (k2 + (k1 + j)))) s" by (simp add: add.commute)
      then show False using ne md by simp
    qed
  qed
  then show ?thesis by (simp add: match_None)
qed

text \<open>
  So the sixth test of \<open>parseKoreanDate\<close>, for a full date, can only fail: when it is
  reached the month-and-day pattern has found no match, and then the full-date
  pattern finds none either.  No text is resolved by the year written in it.
\<close>

lemma parseKoreanDate_never_reads_year:
  assumes "\<not> str_includes (toLowerCase h text) w_today"
    and "\<not> str_includes (toLowerCase h text) w_tomorrow"
    and "\<not> str_includes (toLowerCase h text) w_day_after_tomorrow"
    and "\<forall>p\<in>set dayMap. \<not> str_includes (toLowerCase h text) (fst p)"
    and "match (toLowerCase h text) rx_daysLater = None"
    and "match (toLowerCase h text) rx_weeksLater = None"
    and "match (toLowerCase h text) rx_monthDay = None"
  shows "parseKoreanDate h now text = None"
proof -
  have "find (\<lambda>(day, f). str_includes (toLowerCase h text) day) dayMap = None"
    using assms(4) by (auto simp add: find_None_iff)
  then show ?thesis
    using assms(1-3,5-7) full_date_implies_month_day [OF assms(7)]
    by (simp add: parseKoreanDate_def Let_def)
qed

end
